theory Spec2Isabelle
  imports Complex_Main
begin

section \<open>Regular expressions, as used by the two zod schemas\<close>

text \<open>
  The source validates identifiers with JavaScript regular expressions that only use
  character classes, concatenation, grouping, \<open>+\<close> and \<open>*\<close>, anchored at both ends.
  A JavaScript string is a sequence of UTF-16 code units; the model uses \<open>string\<close>
  (a list of 8-bit characters). Every class of the source is a set of ASCII characters,
  so a unit outside ASCII fails every class in both readings.

  A character class is a list of inclusive ranges of character codes.
\<close>

datatype rexp =
    Zero
  | One
  | Cls "(nat \<times> nat) list"
  | Alt rexp rexp
  | Seq rexp rexp
  | Star rexp

definition inCls :: "(nat \<times> nat) list \<Rightarrow> char \<Rightarrow> bool" where
  "inCls rs c = list_ex (\<lambda>(lo, hi). lo \<le> (of_char c :: nat) \<and> (of_char c :: nat) \<le> hi) rs"

text \<open>\<open>r+\<close> is \<open>r r*\<close>.\<close>

definition Plus :: "rexp \<Rightarrow> rexp" where
  "Plus r = Seq r (Star r)"

fun nullable :: "rexp \<Rightarrow> bool" where
  "nullable Zero = False"
| "nullable One = True"
| "nullable (Cls rs) = False"
| "nullable (Alt r s) = (nullable r \<or> nullable s)"
| "nullable (Seq r s) = (nullable r \<and> nullable s)"
| "nullable (Star r) = True"

fun deriv :: "char \<Rightarrow> rexp \<Rightarrow> rexp" where
  "deriv c Zero = Zero"
| "deriv c One = Zero"
| "deriv c (Cls rs) = (if inCls rs c then One else Zero)"
| "deriv c (Alt r s) = Alt (deriv c r) (deriv c s)"
| "deriv c (Seq r s) =
     (if nullable r then Alt (Seq (deriv c r) s) (deriv c s) else Seq (deriv c r) s)"
| "deriv c (Star r) = Seq (deriv c r) (Star r)"

text \<open>\<open>/^r$/.test(s)\<close>: the whole string has to match.\<close>

fun matches :: "rexp \<Rightarrow> string \<Rightarrow> bool" where
  "matches r [] = nullable r"
| "matches r (c # cs) = matches (deriv c r) cs"

text \<open>The meaning of a regular expression, to state what the matcher decides.\<close>

definition conc :: "string set \<Rightarrow> string set \<Rightarrow> string set" where
  "conc A B = {xs @ ys | xs ys. xs \<in> A \<and> ys \<in> B}"

inductive_set star :: "string set \<Rightarrow> string set" for A :: "string set" where
  star_nil: "[] \<in> star A"
| star_app: "xs \<in> A \<Longrightarrow> ys \<in> star A \<Longrightarrow> xs @ ys \<in> star A"

fun lang :: "rexp \<Rightarrow> string set" where
  "lang Zero = {}"
| "lang One = {[]}"
| "lang (Cls rs) = {[c] | c. inCls rs c}"
| "lang (Alt r s) = lang r \<union> lang s"
| "lang (Seq r s) = conc (lang r) (lang s)"
| "lang (Star r) = star (lang r)"

section \<open>Identifier parser\<close>

text \<open>
  \<^verbatim>\<open>interface Digest { algorithm: 'sha256' | 'sha384' | 'sha512'; hash: string; digest: string }\<close>
  The algorithm is a string at run time; \<open>parseDigest\<close> is what restricts it.
\<close>

record Digest =
  algorithm :: string
  hash :: string
  digest :: string

text \<open>The classes \<^verbatim>\<open>[a-z0-9]\<close>, \<^verbatim>\<open>[.+_-]\<close>, \<^verbatim>\<open>[a-zA-Z0-9=_-]\<close> and \<^verbatim>\<open>:\<close>.\<close>

definition lowerAlnum :: "(nat \<times> nat) list" where
  "lowerAlnum = [(97, 122), (48, 57)]"

definition separators :: "(nat \<times> nat) list" where
  "separators = [(46, 46), (43, 43), (95, 95), (45, 45)]"

definition hashChars :: "(nat \<times> nat) list" where
  "hashChars = [(97, 122), (65, 90), (48, 57), (61, 61), (95, 95), (45, 45)]"

definition colon :: "(nat \<times> nat) list" where
  "colon = [(58, 58)]"

text \<open>\<^verbatim>\<open>/^[a-z0-9]+(?:[.+_-][a-z0-9]+)*:[a-zA-Z0-9=_-]+$/\<close>\<close>

definition algorithmPattern :: rexp where
  "algorithmPattern =
     Seq (Plus (Cls lowerAlnum)) (Star (Seq (Cls separators) (Plus (Cls lowerAlnum))))"

definition digestPattern :: rexp where
  "digestPattern = Seq algorithmPattern (Seq (Cls colon) (Plus (Cls hashChars)))"

text \<open>\<^verbatim>\<open>String.prototype.split\<close> with a one-character separator.\<close>

fun js_split :: "char \<Rightarrow> string \<Rightarrow> string list" where
  "js_split sep [] = [[]]"
| "js_split sep (c # cs) =
     (if c = sep then [] # js_split sep cs
      else (case js_split sep cs of [] \<Rightarrow> [[c]] | p # ps \<Rightarrow> (c # p) # ps))"

text \<open>
  \<^verbatim>\<open>
  function parseDigest(candidate: string): Digest | null {
    const result = digestSchema.safeParse(candidate)
    if (!result.success) return null
    const [algorithm, hash] = result.data.split(':')
    if (algorithm !== 'sha256' && algorithm !== 'sha384' && algorithm !== 'sha512') return null
    if (!hash) return null
    return {algorithm, hash, digest: result.data}
  }
  \<close>
  Destructuring a list shorter than two leaves \<open>hash\<close> undefined, which \<open>!hash\<close>
  rejects like the empty string.
\<close>

definition parseDigest :: "string \<Rightarrow> Digest option" where
  "parseDigest candidate =
     (if \<not> matches digestPattern candidate then None
      else (case js_split CHR '':'' candidate of
              [] \<Rightarrow> None
            | [alg] \<Rightarrow> None
            | alg # h # rest \<Rightarrow>
                if alg \<noteq> ''sha256'' \<and> alg \<noteq> ''sha384'' \<and> alg \<noteq> ''sha512'' then None
                else if h = [] then None
                else Some \<lparr>algorithm = alg, hash = h, digest = candidate\<rparr>))"

text \<open>
  \<^verbatim>\<open>
  const tagSchema = z.string().regex(/^[\w][\w.-]{0,127}$/)
  function parseTag(candidate: string) {
    const result = tagSchema.safeParse(candidate)
    return result.success ? result.data : null
  }
  \<close>
  \<open>r{0,n}\<close> is \<open>Upto n r\<close>.
\<close>

fun Upto :: "nat \<Rightarrow> rexp \<Rightarrow> rexp" where
  "Upto 0 r = One"
| "Upto (Suc n) r = Alt One (Seq r (Upto n r))"

definition wordChars :: "(nat \<times> nat) list" where
  "wordChars = [(65, 90), (97, 122), (48, 57), (95, 95)]"

definition tagChars :: "(nat \<times> nat) list" where
  "tagChars = wordChars @ [(46, 46), (45, 45)]"

definition tagPattern :: rexp where
  "tagPattern = Seq (Cls wordChars) (Upto 127 (Cls tagChars))"

definition parseTag :: "string \<Rightarrow> string option" where
  "parseTag candidate = (if matches tagPattern candidate then Some candidate else None)"

section \<open>Values of the JavaScript runtime\<close>

text \<open>
  Numbers are IEEE doubles in the source. The model uses exact rationals and \<open>NaN\<close>:
  the two agree on every integer below \<open>2^53\<close>, which covers any length a registry
  reports. Infinities are not modelled.
\<close>

datatype jsnum = NaN | Finite rat

text \<open>\<open>a > b\<close> on numbers: false as soon as one side is \<open>NaN\<close>.\<close>

fun js_gt :: "jsnum \<Rightarrow> jsnum \<Rightarrow> bool" where
  "js_gt (Finite a) (Finite b) = (a > b)"
| "js_gt _ _ = False"

text \<open>The decimal rendering of an integer, as a template literal or \<open>toString\<close> gives it.\<close>

definition digitChar :: "nat \<Rightarrow> char" where
  "digitChar d = ''0123456789'' ! d"

fun showNat :: "nat \<Rightarrow> string" where
  "showNat n = (if n < 10 then [digitChar n] else showNat (n div 10) @ [digitChar (n mod 10)])"

definition showInt :: "int \<Rightarrow> string" where
  "showInt i = (if i < 0 then CHR ''-'' # showNat (nat (- i)) else showNat (nat i))"

text \<open>A parsed JSON document; \<open>undefined\<close> is \<open>None\<close> of \<open>json option\<close>.\<close>

datatype json =
    JNull
  | JBool bool
  | JNum rat
  | JStr string
  | JArr "json list"
  | JObj "(string \<times> json) list"

datatype error =
    FailedToFetchManifest nat string
  | MissingMediaType
  | InvalidManifestDigest "json option"
  | InvalidConfigDigest "json option"
  | InvalidLayerDigest "json option"
  | UnknownContent json
  | FailedToFetchBlobPart nat nat string
  | TypeError
  | SyntaxError
  | NetworkError
  | StorageError

text \<open>
  Property access \<open>v.p\<close> for the property names the source reads (\<open>mediaType\<close>,
  \<open>manifests\<close>, \<open>config\<close>, \<open>layers\<close>, \<open>digest\<close>): it throws on \<open>null\<close> and
  \<open>undefined\<close>, finds own properties of an object, and is \<open>undefined\<close> on every
  other value.
\<close>

fun js_prop :: "json option \<Rightarrow> string \<Rightarrow> error + json option" where
  "js_prop None p = Inl TypeError"
| "js_prop (Some JNull) p = Inl TypeError"
| "js_prop (Some (JObj props)) p = Inr (map_of props p)"
| "js_prop (Some v) p = Inr None"

text \<open>\<open>!v\<close>\<close>

fun js_falsy :: "json option \<Rightarrow> bool" where
  "js_falsy None = True"
| "js_falsy (Some JNull) = True"
| "js_falsy (Some (JBool b)) = (\<not> b)"
| "js_falsy (Some (JNum x)) = (x = 0)"
| "js_falsy (Some (JStr s)) = (s = [])"
| "js_falsy (Some v) = False"

text \<open>\<open>for (const x of v)\<close>: arrays and strings are iterable, nothing else JSON yields is.\<close>

fun js_iterate :: "json option \<Rightarrow> error + json list" where
  "js_iterate (Some (JArr xs)) = Inr xs"
| "js_iterate (Some (JStr s)) = Inr (map (\<lambda>c. JStr [c]) s)"
| "js_iterate v = Inl TypeError"

text \<open>\<open>parseDigest\<close> on a value that need not be a string: \<open>z.string()\<close> rejects the rest.\<close>

fun parseDigestValue :: "json option \<Rightarrow> Digest option" where
  "parseDigestValue (Some (JStr s)) = parseDigest s"
| "parseDigestValue v = None"

section \<open>HTTP messages\<close>

text \<open>
  A \<open>Headers\<close> object maps header names to values and ignores the case of names: the
  model keys the map by the lower-cased name.
\<close>

type_synonym headers = "string \<rightharpoonup> string"

definition lowerChar :: "char \<Rightarrow> char" where
  "lowerChar c =
     (case map_of (zip ''ABCDEFGHIJKLMNOPQRSTUVWXYZ'' ''abcdefghijklmnopqrstuvwxyz'') c of
        None \<Rightarrow> c
      | Some l \<Rightarrow> l)"

definition headerName :: "string \<Rightarrow> string" where
  "headerName n = map lowerChar n"

definition Headers_get :: "headers \<Rightarrow> string \<Rightarrow> string option" where
  "Headers_get h n = h (headerName n)"

definition Headers_has :: "headers \<Rightarrow> string \<Rightarrow> bool" where
  "Headers_has h n = (h (headerName n) \<noteq> None)"

definition Headers_set :: "headers \<Rightarrow> string \<Rightarrow> string \<Rightarrow> headers" where
  "Headers_set h n v = h(headerName n \<mapsto> v)"

record response =
  status :: nat
  statusText :: string
  headers :: headers
  body :: "string option"

definition ok :: "response \<Rightarrow> bool" where
  "ok res = (200 \<le> status res \<and> status res \<le> 299)"

record ResponseInit =
  init_status :: "nat option"
  init_statusText :: "string option"
  init_headers :: "headers option"

definition noInit :: ResponseInit where
  "noInit = \<lparr>init_status = None, init_statusText = None, init_headers = None\<rparr>"

text \<open>\<open>new Response(body, init)\<close>\<close>

definition new_Response :: "string option \<Rightarrow> ResponseInit \<Rightarrow> response" where
  "new_Response b init =
     \<lparr>status = (case init_status init of None \<Rightarrow> 200 | Some s \<Rightarrow> s),
      statusText = (case init_statusText init of None \<Rightarrow> [] | Some t \<Rightarrow> t),
      headers = (case init_headers init of None \<Rightarrow> Map.empty | Some h \<Rightarrow> h),
      body = b\<rparr>"

text \<open>\<open>new Response(body, res)\<close>: a response used as the init dictionary.\<close>

definition initOf :: "response \<Rightarrow> ResponseInit" where
  "initOf res =
     \<lparr>init_status = Some (status res), init_statusText = Some (statusText res),
      init_headers = Some (headers res)\<rparr>"

record request =
  req_method :: string
  req_headers :: headers

section \<open>The object store and the upstream registry\<close>

text \<open>
  The R2 bucket and the upstream registry are outside the repository. The bucket is a map
  from keys to objects plus the multipart uploads in progress; every call to the bucket
  and to \<open>fetch\<close> is recorded in a trace, so that what the code asked of them can be
  stated. The behaviour follows the contract of the content store in section 4.2 of the
  specification: a part of an unfinished upload is not visible under the key,
  \<open>complete\<close> makes the object visible and \<open>abort\<close> discards the upload.
\<close>

record httpMetadata =
  contentType :: "string option"
  contentEncoding :: "string option"

record stored =
  content :: string
  metadata :: httpMetadata
  etag :: string

record R2Range =
  range_offset :: "nat option"
  range_length :: "nat option"
  range_suffix :: "nat option"

text \<open>What a read returns: \<open>obj_body\<close> is \<open>None\<close> for \<open>head\<close> and for a failed precondition.\<close>

record R2Object =
  obj_size :: nat
  httpEtag :: string
  httpMetadata :: httpMetadata
  obj_range :: "R2Range option"
  obj_body :: "string option"

record R2PutOptions =
  sha256 :: "string option"
  put_httpMetadata :: httpMetadata

record R2UploadedPart =
  partNumber :: nat
  part_etag :: string

record upload =
  upload_key :: string
  upload_metadata :: httpMetadata
  upload_parts :: "nat \<rightharpoonup> string"

datatype event =
    Fetched string headers "response option"
  | StorageGet string
  | StorageHead string
  | StoragePut string bool
  | MultipartCreated string nat
  | PartUploaded nat nat
  | Completed nat
  | Aborted nat

record world =
  objects :: "string \<rightharpoonup> stored"
  uploads :: "nat \<rightharpoonup> upload"
  nextUpload :: nat
  trace :: "event list"

text \<open>
  The bindings of the worker (\<open>REGISTRY_TOKEN\<close>, \<open>UPSTREAM_REGISTRY\<close>; the bucket is
  the \<open>world\<close>) together with the parts of the platform the code calls and the
  repository does not define, taken as parameters:
  \<^item> \<open>fetch\<close>: the upstream's answer to a request, which may depend on everything that
    happened before (the trace); \<open>None\<close> is a rejected promise (network failure);
  \<^item> \<open>registryURL\<close>: the rewriting of the URL done with the \<open>URL\<close> class;
  \<^item> \<open>Number\<close>, \<open>JSON_parse\<close>, \<open>JSON_stringify\<close>, \<open>errorMessage\<close> (\<open>err.message\<close>);
  \<^item> \<open>r2_checksum\<close>: whether the bucket accepts a value for the \<open>sha256\<close> it is given;
    \<open>r2_etag\<close>: the entity tag it assigns; \<open>r2_select\<close>: what a read with
    \<open>onlyIf\<close> and \<open>range\<close> taken from the request headers returns for an object,
    as range metadata and body (no body when the precondition fails).
\<close>

record env =
  REGISTRY_TOKEN :: string
  UPSTREAM_REGISTRY :: string
  fetch :: "event list \<Rightarrow> string \<Rightarrow> headers \<Rightarrow> response option"
  registryURL :: "string \<Rightarrow> string"
  Number :: "string \<Rightarrow> jsnum"
  JSON_parse :: "string \<Rightarrow> json option"
  JSON_stringify :: "json \<Rightarrow> string"
  errorMessage :: "error \<Rightarrow> string"
  r2_checksum :: "string \<Rightarrow> string \<Rightarrow> bool"
  r2_etag :: "string \<Rightarrow> string"
  r2_select :: "headers \<Rightarrow> stored \<Rightarrow> R2Range option \<times> string option"

text \<open>
  An asynchronous function is a state transformer that returns a value or throws; the
  state is kept when it throws.
\<close>

type_synonym ('s, 'a) io = "'s \<Rightarrow> (error + 'a) \<times> 's"

definition io_return :: "'a \<Rightarrow> ('s, 'a) io" where
  "io_return x = (\<lambda>s. (Inr x, s))"

definition io_throw :: "error \<Rightarrow> ('s, 'a) io" where
  "io_throw e = (\<lambda>s. (Inl e, s))"

definition io_bind :: "('s, 'a) io \<Rightarrow> ('a \<Rightarrow> ('s, 'b) io) \<Rightarrow> ('s, 'b) io" where
  "io_bind m f = (\<lambda>s. case m s of (Inl e, s') \<Rightarrow> (Inl e, s') | (Inr x, s') \<Rightarrow> f x s')"

text \<open>\<open>try { m } catch (err) { h err }\<close>\<close>

definition io_catch :: "('s, 'a) io \<Rightarrow> (error \<Rightarrow> ('s, 'a) io) \<Rightarrow> ('s, 'a) io" where
  "io_catch m h = (\<lambda>s. case m s of (Inl e, s') \<Rightarrow> h e s' | (Inr x, s') \<Rightarrow> (Inr x, s'))"

definition record_event :: "event \<Rightarrow> world \<Rightarrow> world" where
  "record_event ev w = w\<lparr>trace := trace w @ [ev]\<rparr>"

text \<open>\<open>env.storage.get(key)\<close>, \<open>env.storage.head(key)\<close>\<close>

definition bodyObject :: "stored \<Rightarrow> R2Object" where
  "bodyObject st =
     \<lparr>obj_size = length (content st), httpEtag = etag st, httpMetadata = metadata st,
      obj_range = None, obj_body = Some (content st)\<rparr>"

definition headObject :: "stored \<Rightarrow> R2Object" where
  "headObject st =
     \<lparr>obj_size = length (content st), httpEtag = etag st, httpMetadata = metadata st,
      obj_range = None, obj_body = None\<rparr>"

definition storage_get :: "string \<Rightarrow> (world, R2Object option) io" where
  "storage_get key = (\<lambda>w. (Inr (map_option bodyObject (objects w key)), record_event (StorageGet key) w))"

definition storage_head :: "string \<Rightarrow> (world, R2Object option) io" where
  "storage_head key = (\<lambda>w. (Inr (map_option headObject (objects w key)), record_event (StorageHead key) w))"

text \<open>\<open>env.storage.get(key, {onlyIf: req.headers, range: req.headers})\<close>\<close>

definition selectedObject :: "env \<Rightarrow> headers \<Rightarrow> stored \<Rightarrow> R2Object" where
  "selectedObject E hs st =
     \<lparr>obj_size = length (content st), httpEtag = etag st, httpMetadata = metadata st,
      obj_range = fst (r2_select E hs st), obj_body = snd (r2_select E hs st)\<rparr>"

definition storage_get_with :: "env \<Rightarrow> string \<Rightarrow> headers \<Rightarrow> (world, R2Object option) io" where
  "storage_get_with E key hs =
     (\<lambda>w. (Inr (map_option (selectedObject E hs) (objects w key)), record_event (StorageGet key) w))"

text \<open>\<open>env.storage.put(key, value, options)\<close>: rejected when the checksum does not fit.\<close>

definition noOptions :: R2PutOptions where
  "noOptions = \<lparr>sha256 = None, put_httpMetadata = \<lparr>contentType = None, contentEncoding = None\<rparr>\<rparr>"

definition storage_put :: "env \<Rightarrow> string \<Rightarrow> string \<Rightarrow> R2PutOptions \<Rightarrow> (world, unit) io" where
  "storage_put E key v options =
     (\<lambda>w. if (case sha256 options of None \<Rightarrow> True | Some h \<Rightarrow> r2_checksum E h v)
          then (Inr (),
                record_event (StoragePut key True)
                  (w\<lparr>objects := (objects w)(key \<mapsto>
                       \<lparr>content = v, metadata = put_httpMetadata options, etag = r2_etag E v\<rparr>)\<rparr>))
          else (Inl StorageError, record_event (StoragePut key False) w))"

text \<open>Multipart uploads: \<open>createMultipartUpload\<close>, \<open>uploadPart\<close>, \<open>complete\<close>, \<open>abort\<close>.\<close>

definition createMultipartUpload :: "string \<Rightarrow> R2PutOptions \<Rightarrow> (world, nat) io" where
  "createMultipartUpload key options =
     (\<lambda>w. (Inr (nextUpload w),
           record_event (MultipartCreated key (nextUpload w))
             (w\<lparr>uploads := (uploads w)(nextUpload w \<mapsto>
                    \<lparr>upload_key = key, upload_metadata = put_httpMetadata options,
                     upload_parts = Map.empty\<rparr>),
                nextUpload := Suc (nextUpload w)\<rparr>)))"

definition uploadPart :: "env \<Rightarrow> nat \<Rightarrow> nat \<Rightarrow> string \<Rightarrow> (world, R2UploadedPart) io" where
  "uploadPart E u n v =
     (\<lambda>w. case uploads w u of
            None \<Rightarrow> (Inl StorageError, record_event (PartUploaded u n) w)
          | Some up \<Rightarrow>
              (Inr \<lparr>partNumber = n, part_etag = r2_etag E v\<rparr>,
               record_event (PartUploaded u n)
                 (w\<lparr>uploads := (uploads w)(u \<mapsto> up\<lparr>upload_parts := (upload_parts up)(n \<mapsto> v)\<rparr>)\<rparr>)))"

fun collectParts :: "(nat \<rightharpoonup> string) \<Rightarrow> R2UploadedPart list \<Rightarrow> string option" where
  "collectParts ups [] = Some []"
| "collectParts ups (p # ps) =
     (case ups (partNumber p) of
        None \<Rightarrow> None
      | Some v \<Rightarrow> (case collectParts ups ps of None \<Rightarrow> None | Some rest \<Rightarrow> Some (v @ rest)))"

definition complete :: "env \<Rightarrow> nat \<Rightarrow> R2UploadedPart list \<Rightarrow> (world, unit) io" where
  "complete E u parts =
     (\<lambda>w. case uploads w u of
            None \<Rightarrow> (Inl StorageError, record_event (Completed u) w)
          | Some up \<Rightarrow>
              (case collectParts (upload_parts up) parts of
                 None \<Rightarrow> (Inl StorageError, record_event (Completed u) w)
               | Some v \<Rightarrow>
                   (Inr (),
                    record_event (Completed u)
                      (w\<lparr>objects := (objects w)(upload_key up \<mapsto>
                             \<lparr>content = v, metadata = upload_metadata up, etag = r2_etag E v\<rparr>),
                         uploads := (uploads w)(u := None)\<rparr>))))"

definition abort :: "nat \<Rightarrow> (world, unit) io" where
  "abort u = (\<lambda>w. (Inr (), record_event (Aborted u) (w\<lparr>uploads := (uploads w)(u := None)\<rparr>)))"

section \<open>Utilities of the worker\<close>

text \<open>
  \<^verbatim>\<open>
  function response(bodyInit, init = {}) {
    const headers = new Headers(init.headers || {})
    headers.set('Docker-Distribution-API-Version', 'registry/2.0')
    init.headers = headers
    return new Response(bodyInit, init)
  }
  \<close>
\<close>

definition response :: "string option \<Rightarrow> ResponseInit \<Rightarrow> response" where
  "response bodyInit init =
     (let hs = (case init_headers init of None \<Rightarrow> Map.empty | Some h \<Rightarrow> h);
          hs = Headers_set hs ''Docker-Distribution-API-Version'' ''registry/2.0''
      in new_Response bodyInit (init\<lparr>init_headers := Some hs\<rparr>))"

definition emptyResponse :: "ResponseInit \<Rightarrow> response" where
  "emptyResponse responseInit = response None responseInit"

definition json :: "env \<Rightarrow> json \<Rightarrow> ResponseInit \<Rightarrow> response" where
  "json E data responseInit =
     (let hs = (case init_headers responseInit of None \<Rightarrow> Map.empty | Some h \<Rightarrow> h);
          hs = Headers_set hs ''Content-Type'' ''application/json''
      in response (Some (JSON_stringify E data)) (responseInit\<lparr>init_headers := Some hs\<rparr>))"

text \<open>The literal \<^verbatim>\<open>{errors: [{code: c}]}\<close> and the init \<^verbatim>\<open>{status: n}\<close>.\<close>

definition errorsOf :: "string \<Rightarrow> json" where
  "errorsOf c = JObj [(''errors'', JArr [JObj [(''code'', JStr c)]])]"

definition errorsWithMessage :: "string \<Rightarrow> string \<Rightarrow> json" where
  "errorsWithMessage c m = JObj [(''errors'', JArr [JObj [(''code'', JStr c), (''message'', JStr m)]])]"

definition statusInit :: "nat \<Rightarrow> ResponseInit" where
  "statusInit n = noInit\<lparr>init_status := Some n\<rparr>"

text \<open>
  \<^verbatim>\<open>
  async function fetchFromRegistry(env, url, init = {}) {
    upstreamURL = upstreamURL ?? new URL(env.UPSTREAM_REGISTRY)
    const registryURL = new URL(url)
    registryURL.protocol = upstreamURL.protocol
    registryURL.hostname = upstreamURL.hostname
    registryURL.pathname = registryURL.pathname.replace(/^\/v2\//, `/v2/${upstreamURL.pathname}/`)
    const headers = new Headers(init.headers)
    headers.set('accept', '*/*')
    headers.set('authorization', `Basic ${env.REGISTRY_TOKEN}`)
    return await fetch(registryURL, {...init, headers})
  }
  \<close>
  The only \<open>init\<close> the source passes is a set of headers.
\<close>

definition fetchFromRegistry :: "env \<Rightarrow> string \<Rightarrow> headers \<Rightarrow> (world, response) io" where
  "fetchFromRegistry E url initHeaders =
     (\<lambda>w. let hs = Headers_set initHeaders ''accept'' ''*/*'';
              hs = Headers_set hs ''authorization'' (''Basic '' @ REGISTRY_TOKEN E);
              answer = fetch E (trace w) (registryURL E url) hs
          in ((case answer of None \<Rightarrow> Inl NetworkError | Some res \<Rightarrow> Inr res),
              record_event (Fetched (registryURL E url) hs answer) w))"

text \<open>
  \<^verbatim>\<open>
  async function pullThroughRegistry(req, fromR2, fromRegistry) {
    if (req.method === 'HEAD') {
      let object = await fromR2()
      if (!object) {
        const res = await fromRegistry()
        if (!res.ok) return res
        object = await fromR2()
      }
      if (!object) return json({errors: [{code: 'BLOB_UNKNOWN'}]}, {status: 404})
      return object
    }
    const object = await fromR2()
    if (!object) return fromRegistry()
    return object
  }
  \<close>
  The two actions are closures over whatever state they use.
\<close>

definition pullThroughRegistry ::
  "env \<Rightarrow> request \<Rightarrow> ('s, response option) io \<Rightarrow> ('s, response) io \<Rightarrow> ('s, response) io" where
  "pullThroughRegistry E req fromR2 fromRegistry =
     (if req_method req = ''HEAD'' then
        io_bind fromR2 (\<lambda>object.
          case object of
            Some obj \<Rightarrow> io_return obj
          | None \<Rightarrow>
              io_bind fromRegistry (\<lambda>res.
                if \<not> ok res then io_return res
                else io_bind fromR2 (\<lambda>object.
                  case object of
                    None \<Rightarrow> io_return (json E (errorsOf ''BLOB_UNKNOWN'') (statusInit 404))
                  | Some obj \<Rightarrow> io_return obj)))
      else
        io_bind fromR2 (\<lambda>object.
          case object of
            None \<Rightarrow> fromRegistry
          | Some obj \<Rightarrow> io_return obj))"

text \<open>\<open>obj.writeHttpMetadata(headers)\<close>, for the metadata this worker stores.\<close>

definition writeHttpMetadata :: "R2Object \<Rightarrow> headers \<Rightarrow> headers" where
  "writeHttpMetadata obj hs =
     (let hs = (case contentType (httpMetadata obj) of None \<Rightarrow> hs
                | Some t \<Rightarrow> Headers_set hs ''content-type'' t)
      in (case contentEncoding (httpMetadata obj) of None \<Rightarrow> hs
          | Some e \<Rightarrow> Headers_set hs ''content-encoding'' e))"

text \<open>
  \<^verbatim>\<open>
  async function getObject(req, env, key, headers) {
    if (req.method === 'HEAD') {
      const obj = await env.storage.head(key)
      if (!obj) return null
      obj.writeHttpMetadata(headers)
      headers.set('accept-ranges', 'bytes')
      headers.set('etag', obj.httpEtag)
      headers.set('content-length', obj.size.toString())
      return emptyResponse({headers})
    }
    const obj = await env.storage.get(key, {onlyIf: req.headers, range: req.headers})
    if (!obj) return null
    obj.writeHttpMetadata(headers)
    headers.set('etag', obj.httpEtag)
    headers.set('accept-ranges', 'bytes')
    if (req.headers.has('range') && obj.range && 'offset' in obj.range && 'length' in obj.range &&
        obj.range.offset != undefined && obj.range.length != undefined) {
      headers.set('content-range',
        `bytes ${obj.range.offset}-${obj.range.offset + obj.range.length - 1}/${obj.size}`)
      headers.set('content-length',
        (obj.range.length != undefined ? obj.range.length : obj.size).toString())
    } else {
      headers.set('content-length', obj.size.toString())
    }
    const body = 'body' in obj && obj.body ? obj.body : null
    const status = 'body' in obj && obj.body ? (req.headers.get('range') !== null ? 206 : 200) : 304
    return new Response(body, {headers, status})
  }
  \<close>
  The rendering of a found object is \<open>objectResponse\<close>; a body is a stream object, so
  it is truthy whenever it is there.
\<close>

definition contentRange :: "nat \<Rightarrow> nat \<Rightarrow> nat \<Rightarrow> string" where
  "contentRange off len sz =
     ''bytes '' @ showNat off @ ''-'' @ showInt (int off + int len - 1) @ ''/'' @ showNat sz"

definition objectResponse :: "request \<Rightarrow> R2Object \<Rightarrow> headers \<Rightarrow> response" where
  "objectResponse req obj hs =
     (let hs = writeHttpMetadata obj hs;
          hs = Headers_set hs ''etag'' (httpEtag obj);
          hs = Headers_set hs ''accept-ranges'' ''bytes'';
          hs = (case (if Headers_has (req_headers req) ''range'' then obj_range obj else None) of
                  None \<Rightarrow> Headers_set hs ''content-length'' (showNat (obj_size obj))
                | Some r \<Rightarrow>
                    (case range_offset r of
                       None \<Rightarrow> Headers_set hs ''content-length'' (showNat (obj_size obj))
                     | Some off \<Rightarrow>
                         (case range_length r of
                            None \<Rightarrow> Headers_set hs ''content-length'' (showNat (obj_size obj))
                          | Some len \<Rightarrow>
                              Headers_set
                                (Headers_set hs ''content-range'' (contentRange off len (obj_size obj)))
                                ''content-length'' (showNat len))));
          st = (case obj_body obj of
                  None \<Rightarrow> 304
                | Some b \<Rightarrow> (if Headers_get (req_headers req) ''range'' \<noteq> None then 206 else 200))
      in new_Response (obj_body obj) (noInit\<lparr>init_headers := Some hs, init_status := Some st\<rparr>))"

definition getObject :: "env \<Rightarrow> request \<Rightarrow> string \<Rightarrow> headers \<Rightarrow> (world, response option) io" where
  "getObject E req key hs =
     (if req_method req = ''HEAD'' then
        io_bind (storage_head key) (\<lambda>found.
          case found of
            None \<Rightarrow> io_return None
          | Some obj \<Rightarrow>
              (let hs = writeHttpMetadata obj hs;
                   hs = Headers_set hs ''accept-ranges'' ''bytes'';
                   hs = Headers_set hs ''etag'' (httpEtag obj);
                   hs = Headers_set hs ''content-length'' (showNat (obj_size obj))
               in io_return (Some (emptyResponse (noInit\<lparr>init_headers := Some hs\<rparr>)))))
      else
        io_bind (storage_get_with E key (req_headers req)) (\<lambda>found.
          case found of
            None \<Rightarrow> io_return None
          | Some obj \<Rightarrow> io_return (Some (objectResponse req obj hs))))"

section \<open>Tag resolver\<close>

text \<open>\<open>await obj.text()\<close>\<close>

definition objectText :: "R2Object \<Rightarrow> string" where
  "objectText obj = (case obj_body obj of None \<Rightarrow> [] | Some b \<Rightarrow> b)"

text \<open>
  \<^verbatim>\<open>
  async function resolveTagToDigest(env, name, tag) {
    const obj = await env.storage.get(`${name}/tags/${tag}`)
    if (obj) return parseDigest(await obj.text())
    const res = await fetchFromRegistry(env, `https://registry/v2/${name}/manifests/${tag}`)
    if (!res.ok) return null
    const digest = res.headers.get('Docker-Content-Digest')
    if (!digest) return null
    await env.storage.put(`${name}/tags/${tag}`, digest)
    return parseDigest(digest)
  }
  \<close>
\<close>

definition resolveTagToDigest :: "env \<Rightarrow> string \<Rightarrow> string \<Rightarrow> (world, Digest option) io" where
  "resolveTagToDigest E name tag =
     io_bind (storage_get (name @ ''/tags/'' @ tag)) (\<lambda>found.
       case found of
         Some obj \<Rightarrow> io_return (parseDigest (objectText obj))
       | None \<Rightarrow>
           io_bind (fetchFromRegistry E (''https://registry/v2/'' @ name @ ''/manifests/'' @ tag) Map.empty)
             (\<lambda>res.
               if \<not> ok res then io_return None
               else (case Headers_get (headers res) ''Docker-Content-Digest'' of
                       None \<Rightarrow> io_return None
                     | Some dg \<Rightarrow>
                         if dg = [] then io_return None
                         else io_bind (storage_put E (name @ ''/tags/'' @ tag) dg noOptions)
                                (\<lambda>_. io_return (parseDigest dg)))))"

section \<open>Import engine\<close>

text \<open>
  \<^verbatim>\<open>
  async function importManifest(env, name, digest) {
    const res = await fetchFromRegistry(env, `https://registry/v2/${name}/manifests/${digest.digest}`)
    if (!res.ok || !res.body) return res
    await env.storage.put(`${name}/manifests/${digest.digest}`, res.body, {
      sha256: digest.hash,
      httpMetadata: {
        contentEncoding: res.headers.get('content-encoding') ?? undefined,
        contentType: res.headers.get('content-type') ?? undefined,
      },
    })
    const obj = await env.storage.get(`${name}/manifests/${digest.digest}`)
    if (!obj) return new Response(null, {status: 404})
    return new Response(obj.body, res)
  }
  \<close>
\<close>

definition putOptions :: "Digest \<Rightarrow> response \<Rightarrow> R2PutOptions" where
  "putOptions d res =
     \<lparr>sha256 = Some (hash d),
      put_httpMetadata =
        \<lparr>contentType = Headers_get (headers res) ''content-type'',
         contentEncoding = Headers_get (headers res) ''content-encoding''\<rparr>\<rparr>"

definition importManifest :: "env \<Rightarrow> string \<Rightarrow> Digest \<Rightarrow> (world, response) io" where
  "importManifest E name d =
     io_bind (fetchFromRegistry E (''https://registry/v2/'' @ name @ ''/manifests/'' @ digest d) Map.empty)
       (\<lambda>res.
         if \<not> ok res then io_return res
         else (case body res of
                 None \<Rightarrow> io_return res
               | Some b \<Rightarrow>
                   io_bind (storage_put E (name @ ''/manifests/'' @ digest d) b (putOptions d res)) (\<lambda>_.
                     io_bind (storage_get (name @ ''/manifests/'' @ digest d)) (\<lambda>found.
                       case found of
                         None \<Rightarrow> io_return (new_Response None (statusInit 404))
                       | Some obj \<Rightarrow> io_return (new_Response (obj_body obj) (initOf res))))))"

text \<open>
  \<^verbatim>\<open>
  async function importBlob(env, name, digest) {
    const res = await fetchFromRegistry(env, `https://registry/v2/${name}/blobs/${digest.digest}`)
    if (!res.ok || !res.body) return res
    const key = `${name}/blobs/${digest.digest}`
    const options = { sha256: digest.hash, httpMetadata: {...} }
    const contentLength = Number(res.headers.get('content-length') ?? 0)
    const partSize = 1024 * 1024 * 250 // 250MB
    if (contentLength > partSize) {
      const upload = await env.storage.createMultipartUpload(key, options)
      try {
        const parts = []
        for (let idx = 0; idx < Math.ceil(contentLength / partSize); idx++) {
          const range = `bytes=${idx * partSize}-${(idx + 1) * partSize - 1}`
          const res = await fetchFromRegistry(env, `https://registry/v2/${name}/blobs/${digest.digest}`, {
            headers: {Range: range},
          })
          if (!res.ok || !res.body) {
            throw new Error(`failed to fetch blob for part ${idx}: ${res.status} ${res.statusText}`)
          }
          parts.push(await upload.uploadPart(idx + 1, res.body))
        }
        await upload.complete(parts)
      } catch (err) {
        await upload.abort()
        throw err
      }
    } else {
      await env.storage.put(key, res.body, options)
    }
    const obj = await env.storage.get(key)
    if (!obj) return new Response(null, {status: 404})
    return new Response(obj.body, res)
  }
  \<close>
\<close>

definition partSize :: nat where
  "partSize = 1024 * 1024 * 250"

text \<open>\<open>Math.ceil(contentLength / partSize)\<close>, as the bound of a loop that counts from 0.\<close>

fun partCount :: "jsnum \<Rightarrow> nat" where
  "partCount NaN = 0"
| "partCount (Finite x) = nat \<lceil>x / of_nat partSize\<rceil>"

definition byteRange :: "nat \<Rightarrow> string" where
  "byteRange idx = ''bytes='' @ showNat (idx * partSize) @ ''-'' @ showNat ((idx + 1) * partSize - 1)"

text \<open>\<open>Number(res.headers.get('content-length') ?? 0)\<close>\<close>

definition contentLengthOf :: "env \<Rightarrow> response \<Rightarrow> jsnum" where
  "contentLengthOf E res =
     (case Headers_get (headers res) ''content-length'' of None \<Rightarrow> Finite 0 | Some v \<Rightarrow> Number E v)"

text \<open>The \<open>for\<close> loop, from index \<open>idx\<close> on, with the parts pushed so far.\<close>

function uploadParts ::
  "env \<Rightarrow> string \<Rightarrow> Digest \<Rightarrow> nat \<Rightarrow> jsnum \<Rightarrow> nat \<Rightarrow> R2UploadedPart list
     \<Rightarrow> (world, R2UploadedPart list) io" where
  "uploadParts E name d upload contentLength idx parts =
     (if idx < partCount contentLength then
        io_bind (fetchFromRegistry E (''https://registry/v2/'' @ name @ ''/blobs/'' @ digest d)
                   (Headers_set Map.empty ''Range'' (byteRange idx)))
          (\<lambda>res.
            if \<not> ok res then io_throw (FailedToFetchBlobPart idx (status res) (statusText res))
            else (case body res of
                    None \<Rightarrow> io_throw (FailedToFetchBlobPart idx (status res) (statusText res))
                  | Some b \<Rightarrow>
                      io_bind (uploadPart E upload (idx + 1) b) (\<lambda>part.
                        uploadParts E name d upload contentLength (idx + 1) (parts @ [part]))))
      else io_return parts)"
  by pat_completeness auto
termination
  by (relation "measure (\<lambda>(E, name, d, upload, contentLength, idx, parts). partCount contentLength - idx)")
    auto

definition importBlob :: "env \<Rightarrow> string \<Rightarrow> Digest \<Rightarrow> (world, response) io" where
  "importBlob E name d =
     io_bind (fetchFromRegistry E (''https://registry/v2/'' @ name @ ''/blobs/'' @ digest d) Map.empty)
       (\<lambda>res.
         if \<not> ok res then io_return res
         else (case body res of
                 None \<Rightarrow> io_return res
               | Some b \<Rightarrow>
                   io_bind
                     (if js_gt (contentLengthOf E res) (Finite (of_nat partSize)) then
                        io_bind (createMultipartUpload (name @ ''/blobs/'' @ digest d) (putOptions d res))
                          (\<lambda>upload.
                            io_catch
                              (io_bind (uploadParts E name d upload (contentLengthOf E res) 0 [])
                                 (\<lambda>parts. complete E upload parts))
                              (\<lambda>err. io_bind (abort upload) (\<lambda>_. io_throw err)))
                      else storage_put E (name @ ''/blobs/'' @ digest d) b (putOptions d res))
                     (\<lambda>_.
                       io_bind (storage_get (name @ ''/blobs/'' @ digest d)) (\<lambda>found.
                         case found of
                           None \<Rightarrow> io_return (new_Response None (statusInit 404))
                         | Some obj \<Rightarrow> io_return (new_Response (obj_body obj) (initOf res))))))"

text \<open>
  \<open>importAll\<close> follows digests that the upstream supplies, so nothing bounds its
  recursion. It is given fuel for the depth of the recursion; \<open>None\<close> means that the
  fuel ran out before it returned.
\<close>

type_synonym ('s, 'a) pio = "'s \<Rightarrow> ((error + 'a) \<times> 's) option"

definition pio_lift :: "('s, 'a) io \<Rightarrow> ('s, 'a) pio" where
  "pio_lift m = (\<lambda>s. Some (m s))"

definition pio_return :: "'a \<Rightarrow> ('s, 'a) pio" where
  "pio_return x = pio_lift (io_return x)"

definition pio_throw :: "error \<Rightarrow> ('s, 'a) pio" where
  "pio_throw e = pio_lift (io_throw e)"

text \<open>An expression that may throw and touches no state.\<close>

definition pio_of :: "error + 'a \<Rightarrow> ('s, 'a) pio" where
  "pio_of r = (\<lambda>s. Some (r, s))"

definition pio_bind :: "('s, 'a) pio \<Rightarrow> ('a \<Rightarrow> ('s, 'b) pio) \<Rightarrow> ('s, 'b) pio" where
  "pio_bind m f =
     (\<lambda>s. case m s of
            None \<Rightarrow> None
          | Some (Inl e, s') \<Rightarrow> Some (Inl e, s')
          | Some (Inr x, s') \<Rightarrow> f x s')"

text \<open>\<open>for (const x of xs) { await f(x) }\<close>\<close>

fun pio_forEach :: "('a \<Rightarrow> ('s, unit) pio) \<Rightarrow> 'a list \<Rightarrow> ('s, unit) pio" where
  "pio_forEach f [] = pio_return ()"
| "pio_forEach f (x # xs) = pio_bind (f x) (\<lambda>_. pio_forEach f xs)"

text \<open>\<open>await res.json()\<close>\<close>

definition response_json :: "env \<Rightarrow> response \<Rightarrow> error + json" where
  "response_json E res =
     (case body res of
        None \<Rightarrow> Inl SyntaxError
      | Some b \<Rightarrow> (case JSON_parse E b of None \<Rightarrow> Inl SyntaxError | Some v \<Rightarrow> Inr v))"

text \<open>
  \<^verbatim>\<open>
  async function importAll(env, name, digest) {
    const res = await importManifest(env, name, digest)
    if (!res.ok) throw new Error(`failed to fetch manifest: ${res.status} ${res.statusText}`)
    const content = await res.json()
    if (!content.mediaType) throw new Error('missing mediaType')
    switch (content.mediaType) {
      case 'application/vnd.docker.distribution.manifest.list.v2+json':
      case 'application/vnd.oci.image.index.v1+json': {
        for (const descriptor of content.manifests) {
          const digest = parseDigest(descriptor.digest)
          if (!digest) throw new Error(`invalid manifest digest: ${descriptor.digest}`)
          await importAll(env, name, digest)
        }
        return
      }
      case 'application/vnd.docker.distribution.manifest.v2+json':
      case 'application/vnd.oci.image.manifest.v1+json': {
        const digest = parseDigest(content.config.digest)
        if (!digest) throw new Error(`invalid config digest: ${content.config.digest}`)
        if (await env.storage.head(`${name}/blobs/${digest.digest}`)) {
        } else {
          await importBlob(env, name, digest)
        }
        for (const layer of content.layers) {
          const digest = parseDigest(layer.digest)
          if (!digest) throw new Error(`invalid layer digest: ${layer.digest}`)
          if (await env.storage.head(`${name}/blobs/${digest.digest}`)) {
          } else {
            await importBlob(env, name, digest)
          }
        }
        return
      }
      default:
        throw new Error(`unknown content: ${JSON.stringify(content)}`)
    }
  }
  \<close>
  (The calls of \<open>console.log\<close> are left out.)
\<close>

fun importAll :: "nat \<Rightarrow> env \<Rightarrow> string \<Rightarrow> Digest \<Rightarrow> (world, unit) pio" where
  "importAll 0 E name d = (\<lambda>w. None)"
| "importAll (Suc fuel) E name d =
     pio_bind (pio_lift (importManifest E name d)) (\<lambda>res.
       if \<not> ok res then pio_throw (FailedToFetchManifest (status res) (statusText res))
       else
       pio_bind (pio_of (response_json E res)) (\<lambda>content.
       pio_bind (pio_of (js_prop (Some content) ''mediaType'')) (\<lambda>mediaType.
         if js_falsy mediaType then pio_throw MissingMediaType
         else if mediaType = Some (JStr ''application/vnd.docker.distribution.manifest.list.v2+json'')
               \<or> mediaType = Some (JStr ''application/vnd.oci.image.index.v1+json'') then
           pio_bind (pio_of (js_prop (Some content) ''manifests'')) (\<lambda>manifests.
           pio_bind (pio_of (js_iterate manifests)) (\<lambda>descriptors.
             pio_forEach (\<lambda>descriptor.
               pio_bind (pio_of (js_prop (Some descriptor) ''digest'')) (\<lambda>dg.
                 case parseDigestValue dg of
                   None \<Rightarrow> pio_throw (InvalidManifestDigest dg)
                 | Some digest' \<Rightarrow> importAll fuel E name digest'))
               descriptors))
         else if mediaType = Some (JStr ''application/vnd.docker.distribution.manifest.v2+json'')
               \<or> mediaType = Some (JStr ''application/vnd.oci.image.manifest.v1+json'') then
           pio_bind (pio_of (js_prop (Some content) ''config'')) (\<lambda>config.
           pio_bind (pio_of (js_prop config ''digest'')) (\<lambda>dg.
             case parseDigestValue dg of
               None \<Rightarrow> pio_throw (InvalidConfigDigest dg)
             | Some digest' \<Rightarrow>
                 pio_bind (pio_lift (storage_head (name @ ''/blobs/'' @ digest digest'))) (\<lambda>found.
                 pio_bind (case found of
                             Some obj \<Rightarrow> pio_return ()
                           | None \<Rightarrow> pio_bind (pio_lift (importBlob E name digest')) (\<lambda>_. pio_return ()))
                   (\<lambda>_.
                 pio_bind (pio_of (js_prop (Some content) ''layers'')) (\<lambda>layers.
                 pio_bind (pio_of (js_iterate layers)) (\<lambda>layerList.
                   pio_forEach (\<lambda>layer.
                     pio_bind (pio_of (js_prop (Some layer) ''digest'')) (\<lambda>dg.
                       case parseDigestValue dg of
                         None \<Rightarrow> pio_throw (InvalidLayerDigest dg)
                       | Some digest' \<Rightarrow>
                           pio_bind (pio_lift (storage_head (name @ ''/blobs/'' @ digest digest')))
                             (\<lambda>found.
                               case found of
                                 Some obj \<Rightarrow> pio_return ()
                               | None \<Rightarrow>
                                   pio_bind (pio_lift (importBlob E name digest')) (\<lambda>_. pio_return ()))))
                     layerList))))))
         else pio_throw (UnknownContent content))))"

section \<open>Routes\<close>

text \<open>
  The handlers of \<^verbatim>\<open>/v2/:name/manifests/:reference\<close> and \<^verbatim>\<open>/v2/:name/blobs/:digest\<close>,
  from the path parameters on.
  \<^verbatim>\<open>
  const tag = parseTag(reference)
  const digest = tag ? await resolveTagToDigest(env, name, tag) : parseDigest(reference)
  if (!digest) return json({errors: [{code: 'MANIFEST_UNKNOWN'}]}, {status: 404})
  const key = `${name}/manifests/${digest.digest}`
  const headers = new Headers({
    'Docker-Content-Digest': digest.digest,
    'Docker-Distribution-Api-Version': 'registry/2.0',
  })
  return pullThroughRegistry(req, () => getObject(req, env, key, headers), () => importManifest(env, name, digest))
  \<close>
\<close>

definition routeHeaders :: "Digest \<Rightarrow> headers" where
  "routeHeaders d =
     Headers_set (Headers_set Map.empty ''Docker-Content-Digest'' (digest d))
       ''Docker-Distribution-Api-Version'' ''registry/2.0''"

definition manifestsRoute :: "env \<Rightarrow> request \<Rightarrow> string \<Rightarrow> string \<Rightarrow> (world, response) io" where
  "manifestsRoute E req name reference =
     io_bind (case parseTag reference of
                None \<Rightarrow> io_return (parseDigest reference)
              | Some tag \<Rightarrow> if tag = [] then io_return (parseDigest reference)
                            else resolveTagToDigest E name tag)
       (\<lambda>resolved.
         case resolved of
           None \<Rightarrow> io_return (json E (errorsOf ''MANIFEST_UNKNOWN'') (statusInit 404))
         | Some d \<Rightarrow>
             pullThroughRegistry E req
               (getObject E req (name @ ''/manifests/'' @ digest d) (routeHeaders d))
               (importManifest E name d))"

definition blobsRoute :: "env \<Rightarrow> request \<Rightarrow> string \<Rightarrow> string \<Rightarrow> (world, response) io" where
  "blobsRoute E req name digestParam =
     (case parseDigest digestParam of
        None \<Rightarrow> io_return (json E (errorsOf ''BLOB_UNKNOWN'') (statusInit 404))
      | Some d \<Rightarrow>
          pullThroughRegistry E req
            (getObject E req (name @ ''/blobs/'' @ digest d) (routeHeaders d))
            (importBlob E name d))"

text \<open>
  The handler of \<^verbatim>\<open>POST /v2/:name/manifests/:reference/_import\<close>.
  \<^verbatim>\<open>
  const tag = parseTag(reference)
  if (!tag) return json({errors: [{code: 'MANIFEST_INVALID'}]}, {status: 400})
  const res = await fetchFromRegistry(env, `https://registry/v2/${name}/manifests/${tag}`)
  if (!res.ok) return res
  try {
    const digest = parseDigest(res.headers.get('Docker-Content-Digest') ?? '')
    if (!digest) return json({errors: [{code: 'MANIFEST_INVALID'}]}, {status: 400})
    await importAll(env, name, digest)
    await env.storage.put(`${name}/tags/${tag}`, digest.digest)
  } catch (err: any) {
    return json({errors: [{code: 'INTERNAL_ERROR', message: err.message}]}, {status: 500})
  }
  return res
  \<close>
  The \<open>try\<close> block yields \<open>Some\<close> response where it returns and \<open>None\<close> where it
  falls through.
\<close>

definition pio_catch :: "('s, 'a) pio \<Rightarrow> (error \<Rightarrow> ('s, 'a) pio) \<Rightarrow> ('s, 'a) pio" where
  "pio_catch m h =
     (\<lambda>s. case m s of
            None \<Rightarrow> None
          | Some (Inl e, s') \<Rightarrow> h e s'
          | Some (Inr x, s') \<Rightarrow> Some (Inr x, s'))"

definition importRoute :: "nat \<Rightarrow> env \<Rightarrow> string \<Rightarrow> string \<Rightarrow> (world, response) pio" where
  "importRoute fuel E name reference =
     (case (case parseTag reference of None \<Rightarrow> None | Some t \<Rightarrow> if t = [] then None else Some t) of
        None \<Rightarrow> pio_return (json E (errorsOf ''MANIFEST_INVALID'') (statusInit 400))
      | Some tag \<Rightarrow>
          pio_bind (pio_lift (fetchFromRegistry E (''https://registry/v2/'' @ name @ ''/manifests/'' @ tag)
                                Map.empty))
            (\<lambda>res.
              if \<not> ok res then pio_return res
              else
                pio_bind
                  (pio_catch
                     (case parseDigest (case Headers_get (headers res) ''Docker-Content-Digest'' of
                                          None \<Rightarrow> [] | Some v \<Rightarrow> v) of
                        None \<Rightarrow> pio_return (Some (json E (errorsOf ''MANIFEST_INVALID'') (statusInit 400)))
                      | Some d \<Rightarrow>
                          pio_bind (importAll fuel E name d) (\<lambda>_.
                            pio_bind (pio_lift (storage_put E (name @ ''/tags/'' @ tag) (digest d) noOptions))
                              (\<lambda>_. pio_return None)))
                     (\<lambda>err. pio_return
                        (Some (json E (errorsWithMessage ''INTERNAL_ERROR'' (errorMessage E err))
                                 (statusInit 500)))))
                  (\<lambda>returned.
                    case returned of
                      Some r \<Rightarrow> pio_return r
                    | None \<Rightarrow> pio_return res)))"

section \<open>Notions used to state the properties\<close>

text \<open>The characters that can occur in the algorithm part of a digest.\<close>

definition algChar :: "char \<Rightarrow> bool" where
  "algChar c = (inCls lowerAlnum c \<or> inCls separators c)"

text \<open>
  To count how often \<open>pullThroughRegistry\<close> calls its two actions, each action is
  wrapped so that it also advances a counter of its own: the state becomes the number of
  reads, the number of populate calls and the state of the actions.
\<close>

definition countingRead :: "('s, 'a) io \<Rightarrow> (nat \<times> nat \<times> 's, 'a) io" where
  "countingRead f = (\<lambda>(reads, populates, s). case f s of (x, s') \<Rightarrow> (x, (Suc reads, populates, s')))"

definition countingPopulate :: "('s, 'a) io \<Rightarrow> (nat \<times> nat \<times> 's, 'a) io" where
  "countingPopulate f = (\<lambda>(reads, populates, s). case f s of (x, s') \<Rightarrow> (x, (reads, Suc populates, s')))"

text \<open>
  The range that a read honoured: the request asked for a range and the object the store
  returned says which bytes it holds, as an offset and a length.
\<close>

definition honouredRange :: "request \<Rightarrow> R2Object \<Rightarrow> (nat \<times> nat) option" where
  "honouredRange req obj =
     (if Headers_has (req_headers req) ''Range'' then
        (case obj_range obj of
           None \<Rightarrow> None
         | Some r \<Rightarrow>
             (case range_offset r of
                None \<Rightarrow> None
              | Some off \<Rightarrow> (case range_length r of None \<Rightarrow> None | Some len \<Rightarrow> Some (off, len))))
      else None)"

text \<open>Concrete worlds and environments, to run the code on.\<close>

definition emptyWorld :: world where
  "emptyWorld = \<lparr>objects = Map.empty, uploads = Map.empty, nextUpload = 0, trace = []\<rparr>"

text \<open>An upstream that answers by URL and request headers only; a bucket that accepts every write.\<close>

definition staticEnv :: "(string \<Rightarrow> headers \<Rightarrow> response option) \<Rightarrow> env" where
  "staticEnv f =
     \<lparr>REGISTRY_TOKEN = ''secret'', UPSTREAM_REGISTRY = ''https://upstream.example/'',
      fetch = (\<lambda>tr. f), registryURL = (\<lambda>url. url), Number = (\<lambda>v. NaN),
      JSON_parse = (\<lambda>v. None), JSON_stringify = (\<lambda>v. ''{}''), errorMessage = (\<lambda>e. ''error''),
      r2_checksum = (\<lambda>h v. True), r2_etag = (\<lambda>v. ''etag''),
      r2_select = (\<lambda>hs st. (None, Some (content st)))\<rparr>"

definition notFound :: response where
  "notFound = \<lparr>status = 404, statusText = ''Not Found'', headers = Map.empty, body = None\<rparr>"

text \<open>A bucket that holds one blob of five bytes.\<close>

definition blobStored :: stored where
  "blobStored = \<lparr>content = ''hello'', metadata = \<lparr>contentType = None, contentEncoding = None\<rparr>,
                 etag = ''etag''\<rparr>"

definition blobWorld :: world where
  "blobWorld = emptyWorld\<lparr>objects := [''alpine/blobs/sha256:abc'' \<mapsto> blobStored]\<rparr>"

text \<open>A read of bytes 1 to 3, which the bucket honours.\<close>

definition rangeReq :: request where
  "rangeReq = \<lparr>req_method = ''GET'', req_headers = [''range'' \<mapsto> ''bytes=1-3'']\<rparr>"

definition rangeEnv :: env where
  "rangeEnv = (staticEnv (\<lambda>url hs. Some notFound))
     \<lparr>r2_select := (\<lambda>hs st.
        (Some \<lparr>range_offset = Some 1, range_length = Some 3, range_suffix = None\<rparr>,
         Some (take 3 (drop 1 (content st)))))\<rparr>"

text \<open>
  A read with a \<open>Range\<close> and an \<open>If-None-Match\<close> header whose entity tag is the
  stored one: the bucket returns the object without a body and without a range.
\<close>

definition conditionalRangeReq :: request where
  "conditionalRangeReq =
     \<lparr>req_method = ''GET'', req_headers = [''range'' \<mapsto> ''bytes=1-3'', ''if-none-match'' \<mapsto> ''etag'']\<rparr>"

definition notModifiedEnv :: env where
  "notModifiedEnv = (staticEnv (\<lambda>url hs. Some notFound))
     \<lparr>r2_select := (\<lambda>hs st. if hs ''if-none-match'' = Some (etag st) then (None, None)
                              else (None, Some (content st)))\<rparr>"

definition headReq :: request where
  "headReq = \<lparr>req_method = ''HEAD'', req_headers = Map.empty\<rparr>"

definition okResponse :: response where
  "okResponse = \<lparr>status = 200, statusText = ''OK'', headers = Map.empty, body = None\<rparr>"

text \<open>Resolving the same tag \<open>n\<close> times in a row, with the results in order.\<close>

fun resolveRepeatedly ::
  "nat \<Rightarrow> env \<Rightarrow> string \<Rightarrow> string \<Rightarrow> world \<Rightarrow> (error + Digest option) list \<times> world" where
  "resolveRepeatedly 0 E name tag w = ([], w)"
| "resolveRepeatedly (Suc n) E name tag w =
     (case resolveTagToDigest E name tag w of
        (r, w') \<Rightarrow> (case resolveRepeatedly n E name tag w' of (rs, w'') \<Rightarrow> (r # rs, w'')))"

text \<open>
  An upstream that answers every request with 200 and the header
  \<open>Docker-Content-Digest: md5:abc\<close>, which is not a digest \<open>parseDigest\<close> accepts.
\<close>

definition md5Response :: response where
  "md5Response =
     \<lparr>status = 200, statusText = ''OK'', headers = [''docker-content-digest'' \<mapsto> ''md5:abc''],
      body = Some ''{}''\<rparr>"

definition md5Env :: env where
  "md5Env = staticEnv (\<lambda>url hs. Some md5Response)"

text \<open>A bucket whose entry for the tag \<open>latest\<close> of \<open>alpine\<close> is not a digest.\<close>

definition staleTagWorld :: world where
  "staleTagWorld = emptyWorld\<lparr>objects :=
     [''alpine/tags/latest'' \<mapsto>
        \<lparr>content = ''md5:abc'', metadata = \<lparr>contentType = None, contentEncoding = None\<rparr>,
         etag = ''etag''\<rparr>]\<rparr>"

text \<open>
  What \<open>importBlob\<close> asks of the upstream and of the bucket, written out to state what
  its trace has to be: the URL of a blob, the headers of the request for part \<open>i\<close>
  (parts count from 0, each is \<open>partSize\<close> bytes), an answer that can be uploaded, and
  the events of the parts \<open>i\<close>, \<open>i + 1\<close>, ... whose answers were \<open>rs\<close>.
\<close>

definition blobURL :: "env \<Rightarrow> string \<Rightarrow> Digest \<Rightarrow> string" where
  "blobURL E name d = registryURL E (''https://registry/v2/'' @ name @ ''/blobs/'' @ digest d)"

definition sentHeaders :: "env \<Rightarrow> headers \<Rightarrow> headers" where
  "sentHeaders E hs = hs(''accept'' \<mapsto> ''*/*'', ''authorization'' \<mapsto> ''Basic '' @ REGISTRY_TOKEN E)"

definition partHeaders :: "env \<Rightarrow> nat \<Rightarrow> headers" where
  "partHeaders E i =
     sentHeaders E [''range'' \<mapsto> ''bytes='' @ showNat (i * 262144000) @ ''-''
                                  @ showNat ((i + 1) * 262144000 - 1)]"

definition goodAnswer :: "response option \<Rightarrow> bool" where
  "goodAnswer a = (case a of None \<Rightarrow> False | Some r \<Rightarrow> ok r \<and> body r \<noteq> None)"

definition partBody :: "response \<Rightarrow> string" where
  "partBody r = (case body r of None \<Rightarrow> [] | Some b \<Rightarrow> b)"

fun partEvents :: "env \<Rightarrow> string \<Rightarrow> Digest \<Rightarrow> nat \<Rightarrow> nat \<Rightarrow> response list \<Rightarrow> event list" where
  "partEvents E name d u i [] = []"
| "partEvents E name d u i (r # rs) =
     Fetched (blobURL E name d) (partHeaders E i) (Some r) # PartUploaded u (i + 1)
       # partEvents E name d u (i + 1) rs"

text \<open>A digest, and an upstream that answers every request with five bytes and no \<open>Content-Length\<close>.\<close>

definition abcDigest :: Digest where
  "abcDigest = \<lparr>algorithm = ''sha256'', hash = ''abc'', digest = ''sha256:abc''\<rparr>"

definition helloResponse :: response where
  "helloResponse = \<lparr>status = 200, statusText = ''OK'', headers = Map.empty, body = Some ''hello''\<rparr>"

definition helloEnv :: env where
  "helloEnv = staticEnv (\<lambda>url hs. Some helloResponse)"




text \<open>
  A response carries the version header; a response has the headers of an answer that the
  upstream gave in the course of the trace.
\<close>

definition hasApiVersion :: "response \<Rightarrow> bool" where
  "hasApiVersion r = (Headers_get (headers r) ''Docker-Distribution-API-Version'' = Some ''registry/2.0'')"

definition fromUpstream :: "event list \<Rightarrow> response \<Rightarrow> bool" where
  "fromUpstream tr r =
     list_ex (\<lambda>ev. case ev of Fetched url hs (Some u) \<Rightarrow> headers r = headers u | _ \<Rightarrow> False) tr"

definition getReq :: request where
  "getReq = \<lparr>req_method = ''GET'', req_headers = Map.empty\<rparr>"

definition bareEnv :: env where
  "bareEnv = staticEnv (\<lambda>url hs. Some notFound)"

text \<open>
  What the specification says \<open>importAll\<close> does, written as plain case analysis, to be
  compared with the function taken from the source. \<open>again\<close> stands for the recursive
  call on one digest.

  The kind of a manifest, by its \<open>mediaType\<close>: none that can be used (with the error
  this raises), an index or manifest list, a single-image manifest, anything else.
\<close>

datatype mediaKind = NoMediaType error | IndexType | ImageType | OtherType

definition mediaKindOf :: "json \<Rightarrow> mediaKind" where
  "mediaKindOf manifest =
     (case js_prop (Some manifest) ''mediaType'' of
        Inl e \<Rightarrow> NoMediaType e
      | Inr t \<Rightarrow>
          if js_falsy t then NoMediaType MissingMediaType
          else if t \<in> {Some (JStr ''application/vnd.docker.distribution.manifest.list.v2+json''),
                        Some (JStr ''application/vnd.oci.image.index.v1+json'')} then IndexType
          else if t \<in> {Some (JStr ''application/vnd.docker.distribution.manifest.v2+json''),
                        Some (JStr ''application/vnd.oci.image.manifest.v1+json'')} then ImageType
          else OtherType)"

text \<open>The descriptors listed under a property of the manifest.\<close>

definition descriptorsOf :: "json \<Rightarrow> string \<Rightarrow> error + json list" where
  "descriptorsOf manifest p =
     (case js_prop (Some manifest) p of Inl e \<Rightarrow> Inl e | Inr v \<Rightarrow> js_iterate v)"

text \<open>Index: each listed descriptor in order; an invalid digest fails the import.\<close>

fun importDescriptors_spec :: "(Digest \<Rightarrow> (world, unit) pio) \<Rightarrow> json list \<Rightarrow> (world, unit) pio" where
  "importDescriptors_spec again [] w = Some (Inr (), w)"
| "importDescriptors_spec again (descriptor # rest) w =
     (case js_prop (Some descriptor) ''digest'' of
        Inl e \<Rightarrow> Some (Inl e, w)
      | Inr dg \<Rightarrow>
          (case parseDigestValue dg of
             None \<Rightarrow> Some (Inl (InvalidManifestDigest dg), w)
           | Some d \<Rightarrow>
               (case again d w of
                  None \<Rightarrow> None
                | Some (Inl e, w') \<Rightarrow> Some (Inl e, w')
                | Some (Inr u, w') \<Rightarrow> importDescriptors_spec again rest w')))"

text \<open>
  A blob is skipped when an object exists under its key, whatever the object holds: the
  only thing done is the existence check. Otherwise it is imported.
\<close>

definition importUnlessPresent_spec :: "env \<Rightarrow> string \<Rightarrow> Digest \<Rightarrow> (world, unit) io" where
  "importUnlessPresent_spec E name d w =
     (if objects w (name @ ''/blobs/'' @ digest d) \<noteq> None
      then (Inr (), record_event (StorageHead (name @ ''/blobs/'' @ digest d)) w)
      else (case importBlob E name d (record_event (StorageHead (name @ ''/blobs/'' @ digest d)) w) of
              (Inl e, w') \<Rightarrow> (Inl e, w')
            | (Inr res, w') \<Rightarrow> (Inr (), w')))"

text \<open>Image manifest: the blobs of the descriptors in order; an invalid digest fails the import.\<close>

fun importBlobs_spec ::
  "env \<Rightarrow> string \<Rightarrow> (json option \<Rightarrow> error) \<Rightarrow> json list \<Rightarrow> (world, unit) io" where
  "importBlobs_spec E name invalid [] w = (Inr (), w)"
| "importBlobs_spec E name invalid (descriptor # rest) w =
     (case js_prop (Some descriptor) ''digest'' of
        Inl e \<Rightarrow> (Inl e, w)
      | Inr dg \<Rightarrow>
          (case parseDigestValue dg of
             None \<Rightarrow> (Inl (invalid dg), w)
           | Some d \<Rightarrow>
               (case importUnlessPresent_spec E name d w of
                  (Inl e, w') \<Rightarrow> (Inl e, w')
                | (Inr u, w') \<Rightarrow> importBlobs_spec E name invalid rest w')))"

definition importAll_spec ::
  "(Digest \<Rightarrow> (world, unit) pio) \<Rightarrow> env \<Rightarrow> string \<Rightarrow> Digest \<Rightarrow> (world, unit) pio" where
  "importAll_spec again E name d w =
     (case importManifest E name d w of
        (Inl e, w1) \<Rightarrow> Some (Inl e, w1)
      | (Inr res, w1) \<Rightarrow>
          if \<not> ok res then Some (Inl (FailedToFetchManifest (status res) (statusText res)), w1)
          else
            (case response_json E res of
               Inl e \<Rightarrow> Some (Inl e, w1)
             | Inr manifest \<Rightarrow>
                 (case mediaKindOf manifest of
                    NoMediaType e \<Rightarrow> Some (Inl e, w1)
                  | OtherType \<Rightarrow> Some (Inl (UnknownContent manifest), w1)
                  | IndexType \<Rightarrow>
                      (case descriptorsOf manifest ''manifests'' of
                         Inl e \<Rightarrow> Some (Inl e, w1)
                       | Inr descriptors \<Rightarrow> importDescriptors_spec again descriptors w1)
                  | ImageType \<Rightarrow>
                      (case js_prop (Some manifest) ''config'' of
                         Inl e \<Rightarrow> Some (Inl e, w1)
                       | Inr None \<Rightarrow> Some (Inl TypeError, w1)
                       | Inr (Some config) \<Rightarrow>
                           (case importBlobs_spec E name InvalidConfigDigest [config] w1 of
                              (Inl e, w2) \<Rightarrow> Some (Inl e, w2)
                            | (Inr u, w2) \<Rightarrow>
                                (case descriptorsOf manifest ''layers'' of
                                   Inl e \<Rightarrow> Some (Inl e, w2)
                                 | Inr layers \<Rightarrow>
                                     Some (importBlobs_spec E name InvalidLayerDigest layers w2)))))))"

text \<open>The digest a descriptor names, if it names a valid one, and the key of its blob.\<close>

definition descriptorDigest :: "json \<Rightarrow> Digest option" where
  "descriptorDigest descriptor =
     (case js_prop (Some descriptor) ''digest'' of Inl e \<Rightarrow> None | Inr dg \<Rightarrow> parseDigestValue dg)"

definition blobKeyOf :: "string \<Rightarrow> json \<Rightarrow> string" where
  "blobKeyOf name descriptor =
     name @ ''/blobs/'' @ (case descriptorDigest descriptor of None \<Rightarrow> [] | Some b \<Rightarrow> digest b)"

text \<open>
  A repository \<open>r\<close> upstream: an index \<open>sha256:a\<close> that lists the image manifest
  \<open>sha256:b\<close>, whose config is \<open>sha256:c\<close> and whose one layer is \<open>sha256:d\<close>. The
  bucket already holds the config blob.
\<close>

definition indexManifest :: json where
  "indexManifest =
     JObj [(''mediaType'', JStr ''application/vnd.oci.image.index.v1+json''),
           (''manifests'', JArr [JObj [(''digest'', JStr ''sha256:b'')]])]"

definition imageManifest :: json where
  "imageManifest =
     JObj [(''mediaType'', JStr ''application/vnd.oci.image.manifest.v1+json''),
           (''config'', JObj [(''digest'', JStr ''sha256:c'')]),
           (''layers'', JArr [JObj [(''digest'', JStr ''sha256:d'')]])]"

definition bodyResponse :: "string \<Rightarrow> response" where
  "bodyResponse b = \<lparr>status = 200, statusText = ''OK'', headers = Map.empty, body = Some b\<rparr>"

definition repoEnv :: env where
  "repoEnv = (staticEnv (\<lambda>url hs.
        if url = ''https://registry/v2/r/manifests/sha256:a'' then Some (bodyResponse ''index'')
        else if url = ''https://registry/v2/r/manifests/sha256:b'' then Some (bodyResponse ''image'')
        else if url = ''https://registry/v2/r/blobs/sha256:d'' then Some (bodyResponse ''layer'')
        else Some notFound))
     \<lparr>JSON_parse := (\<lambda>v. if v = ''index'' then Some indexManifest
                          else if v = ''image'' then Some imageManifest else None)\<rparr>"

definition configWorld :: world where
  "configWorld = emptyWorld\<lparr>objects :=
     [''r/blobs/sha256:c'' \<mapsto>
        \<lparr>content = ''config'', metadata = \<lparr>contentType = None, contentEncoding = None\<rparr>,
         etag = ''etag''\<rparr>]\<rparr>"

definition aDigest :: Digest where
  "aDigest = \<lparr>algorithm = ''sha256'', hash = ''a'', digest = ''sha256:a''\<rparr>"

text \<open>The same upstream, with manifests of a media type that is not recognised.\<close>

definition plainEnv :: env where
  "plainEnv = repoEnv\<lparr>JSON_parse := (\<lambda>v. Some (JObj [(''mediaType'', JStr ''text/plain'')]))\<rparr>"

section \<open>The matcher decides the language\<close>

text \<open>
  The equations of \<open>showNat\<close> and of the upload loop unfold without end under case
  splits; they are used where a concrete value is computed.
\<close>

declare showNat.simps [simp del]

declare uploadParts.simps [simp del]

lemma conc_nil_iff: "[] \<in> conc A B \<longleftrightarrow> [] \<in> A \<and> [] \<in> B"
  by (auto simp: conc_def)

lemma nullable_iff: "nullable r \<longleftrightarrow> [] \<in> lang r"
  by (induction r) (auto simp: conc_nil_iff intro: star.star_nil)

lemma star_cons_iff:
  "c # w \<in> star A \<longleftrightarrow> (\<exists>u v. w = u @ v \<and> c # u \<in> A \<and> v \<in> star A)"
proof
  assume "c # w \<in> star A"
  then show "\<exists>u v. w = u @ v \<and> c # u \<in> A \<and> v \<in> star A"
  proof (induction "c # w" arbitrary: w rule: star.induct)
    case (star_app xs ys)
    show ?case
    proof (cases xs)
      case Nil
      with star_app show ?thesis by simp
    next
      case (Cons x xs')
      with star_app show ?thesis by auto
    qed
  qed
next
  assume "\<exists>u v. w = u @ v \<and> c # u \<in> A \<and> v \<in> star A"
  then obtain u v where "w = u @ v" "c # u \<in> A" "v \<in> star A" by blast
  then show "c # w \<in> star A"
    using star.star_app [of "c # u" A v] by simp
qed

lemma conc_cons_iff:
  "c # w \<in> conc A B \<longleftrightarrow>
     (\<exists>u v. w = u @ v \<and> c # u \<in> A \<and> v \<in> B) \<or> ([] \<in> A \<and> c # w \<in> B)"
  by (auto simp: conc_def Cons_eq_append_conv) 

lemma conc_iff: "w \<in> conc A B \<longleftrightarrow> (\<exists>u v. w = u @ v \<and> u \<in> A \<and> v \<in> B)"
  by (auto simp: conc_def)

lemma lang_deriv: "w \<in> lang (deriv c r) \<longleftrightarrow> c # w \<in> lang r"
proof (induction r arbitrary: w)
  case (Seq r s)
  have "w \<in> lang (deriv c (Seq r s)) \<longleftrightarrow>
          (\<exists>u v. w = u @ v \<and> c # u \<in> lang r \<and> v \<in> lang s) \<or> ([] \<in> lang r \<and> c # w \<in> lang s)"
    using Seq by (simp add: conc_iff nullable_iff)
  then show ?case
    by (simp add: conc_cons_iff)
next
  case (Star r)
  then show ?case
    by (simp add: star_cons_iff conc_iff)
qed auto

lemma matches_iff: "matches r w \<longleftrightarrow> w \<in> lang r"
  by (induction w arbitrary: r) (auto simp: nullable_iff lang_deriv)

lemma star_Cls: "w \<in> star {[c] | c. P c} \<longleftrightarrow> list_all P w"
proof
  assume "w \<in> star {[c] | c. P c}"
  then show "list_all P w"
    by (induction rule: star.induct) auto
next
  assume "list_all P w"
  then show "w \<in> star {[c] | c. P c}"
  proof (induction w)
    case Nil
    show ?case by (rule star.star_nil)
  next
    case (Cons c w)
    then have "[c] \<in> {[c] | c. P c}" and "w \<in> star {[c] | c. P c}" by auto
    then have "[c] @ w \<in> star {[c] | c. P c}" by (rule star.star_app)
    then show ?case by simp
  qed
qed

lemma lang_Plus_Cls: "w \<in> lang (Plus (Cls cs)) \<longleftrightarrow> w \<noteq> [] \<and> list_all (inCls cs) w"
proof (cases w)
  case Nil
  then show ?thesis by (simp add: Plus_def conc_iff)
next
  case (Cons c v)
  have "w \<in> lang (Plus (Cls cs)) \<longleftrightarrow> (\<exists>u v'. c # v = u @ v' \<and> (\<exists>d. u = [d] \<and> inCls cs d) \<and> list_all (inCls cs) v')"
    by (simp add: Plus_def conc_iff star_Cls Cons)
  also have "\<dots> \<longleftrightarrow> (\<exists>d v'. c # v = [d] @ v' \<and> inCls cs d \<and> list_all (inCls cs) v')"
    by blast
  also have "\<dots> \<longleftrightarrow> inCls cs c \<and> list_all (inCls cs) v"
    by auto
  finally show ?thesis by (simp add: Cons)
qed

lemma star_all:
  assumes "w \<in> star A" and "\<And>u. u \<in> A \<Longrightarrow> list_all P u"
  shows "list_all P w"
  using assms by (induction rule: star.induct) auto

lemma Plus_lowerAlnum_chars: "u \<in> lang (Plus (Cls lowerAlnum)) \<Longrightarrow> list_all algChar u"
  by (simp add: lang_Plus_Cls list_all_iff algChar_def)

lemma group_chars:
  assumes "u \<in> lang (Seq (Cls separators) (Plus (Cls lowerAlnum)))"
  shows "list_all algChar u"
proof -
  from assms obtain x y where u: "u = x @ y" and x: "x \<in> lang (Cls separators)"
    and y: "y \<in> lang (Plus (Cls lowerAlnum))"
    by (auto simp only: lang.simps(5) conc_iff)
  from x have "list_all algChar x" by (auto simp: algChar_def)
  with Plus_lowerAlnum_chars [OF y] u show ?thesis by simp
qed

lemma algorithmPattern_chars:
  assumes "a \<in> lang algorithmPattern"
  shows "list_all algChar a"
proof -
  from assms obtain x y where a: "a = x @ y" and x: "x \<in> lang (Plus (Cls lowerAlnum))"
    and y: "y \<in> star (lang (Seq (Cls separators) (Plus (Cls lowerAlnum))))"
    unfolding algorithmPattern_def by (auto simp only: lang.simps(5,6) conc_iff)
  have "list_all algChar y"
    using y group_chars by (rule star_all)
  with Plus_lowerAlnum_chars [OF x] a show ?thesis by simp
qed

lemma colon_not_algChar: "\<not> algChar CHR '':''"
  by (simp add: algChar_def inCls_def lowerAlnum_def separators_def)

lemma colon_not_hashChar: "\<not> inCls hashChars CHR '':''"
  by (simp add: inCls_def hashChars_def)

lemma lang_colon: "w \<in> lang (Cls colon) \<longleftrightarrow> w = '':''"
proof -
  have "inCls colon c \<longleftrightarrow> c = CHR '':''" for c
  proof -
    have "inCls colon c \<longleftrightarrow> (of_char c :: nat) = of_char CHR '':''"
      by (auto simp: inCls_def colon_def)
    then show ?thesis by (simp only: of_char_eq_iff)
  qed
  then show ?thesis by auto
qed

lemma lang_digestPattern:
  "w \<in> lang digestPattern \<longleftrightarrow>
     (\<exists>a h. w = a @ '':'' @ h \<and> a \<in> lang algorithmPattern \<and> h \<noteq> [] \<and> list_all (inCls hashChars) h)"
proof -
  have "w \<in> lang digestPattern \<longleftrightarrow>
      (\<exists>a r. w = a @ r \<and> a \<in> lang algorithmPattern \<and>
         (\<exists>k h. r = k @ h \<and> k = '':'' \<and> h \<noteq> [] \<and> list_all (inCls hashChars) h))"
    unfolding digestPattern_def
    by (simp only: lang.simps(5) conc_iff lang_colon lang_Plus_Cls)
  also have "\<dots> \<longleftrightarrow> (\<exists>a h. w = a @ '':'' @ h \<and> a \<in> lang algorithmPattern \<and> h \<noteq> [] \<and> list_all (inCls hashChars) h)"
    by blast
  finally show ?thesis .
qed

lemma js_split_no_sep: "sep \<notin> set w \<Longrightarrow> js_split sep w = [w]"
  by (induction w) auto

lemma js_split_one_sep:
  "sep \<notin> set a \<Longrightarrow> sep \<notin> set h \<Longrightarrow> js_split sep (a @ sep # h) = [a, h]"
  by (induction a) (auto simp: js_split_no_sep)

lemma matches_sha256: "matches algorithmPattern ''sha256''"
  by (simp add: algorithmPattern_def Plus_def inCls_def lowerAlnum_def separators_def)

lemma matches_sha384: "matches algorithmPattern ''sha384''"
  by (simp add: algorithmPattern_def Plus_def inCls_def lowerAlnum_def separators_def)

lemma matches_sha512: "matches algorithmPattern ''sha512''"
  by (simp add: algorithmPattern_def Plus_def inCls_def lowerAlnum_def separators_def)

lemma known_algorithm_lang:
  "alg \<in> {''sha256'', ''sha384'', ''sha512''} \<Longrightarrow> alg \<in> lang algorithmPattern"
  using matches_sha256 matches_sha384 matches_sha512 by (auto simp: matches_iff)

lemma list_all_not_colon:
  "list_all P w \<Longrightarrow> \<not> P CHR '':'' \<Longrightarrow> CHR '':'' \<notin> set w"
  by (auto simp: list_all_iff)

lemma parseDigest_of_parts:
  assumes a: "a \<in> lang algorithmPattern" and h: "h \<noteq> []" "list_all (inCls hashChars) h"
  shows "parseDigest (a @ '':'' @ h) =
     (if a \<in> {''sha256'', ''sha384'', ''sha512''}
      then Some \<lparr>algorithm = a, hash = h, digest = a @ '':'' @ h\<rparr> else None)"
proof -
  have m: "matches digestPattern (a @ '':'' @ h)"
    using a h by (auto simp only: matches_iff lang_digestPattern)
  have "CHR '':'' \<notin> set a"
    using algorithmPattern_chars [OF a] colon_not_algChar by (rule list_all_not_colon)
  moreover have "CHR '':'' \<notin> set h"
    using h(2) colon_not_hashChar by (rule list_all_not_colon)
  ultimately have "js_split CHR '':'' (a @ '':'' @ h) = [a, h]"
    using js_split_one_sep [of "CHR '':''" a h] by simp
  with m h(1) show ?thesis
    by (simp add: parseDigest_def)
qed

lemma parseDigest_Some_parts:
  assumes "parseDigest s = Some d"
  shows "\<exists>a h. s = a @ '':'' @ h \<and> a \<in> {''sha256'', ''sha384'', ''sha512''} \<and> h \<noteq> []
           \<and> list_all (inCls hashChars) h \<and> d = \<lparr>algorithm = a, hash = h, digest = s\<rparr>"
proof -
  from assms have "matches digestPattern s"
    by (auto simp: parseDigest_def split: if_splits)
  then obtain a h where s: "s = a @ '':'' @ h" and a: "a \<in> lang algorithmPattern"
    and h: "h \<noteq> []" "list_all (inCls hashChars) h"
    by (auto simp only: matches_iff lang_digestPattern)
  from assms parseDigest_of_parts [OF a h] s
  have "a \<in> {''sha256'', ''sha384'', ''sha512''}" and "d = \<lparr>algorithm = a, hash = h, digest = s\<rparr>"
    by (auto split: if_splits)
  with s h show ?thesis by blast
qed

text \<open>
  Claim C7. For every string \<open>alg:h\<close> whose algorithm is \<open>sha256\<close>, \<open>sha384\<close> or
  \<open>sha512\<close> and whose hash \<open>h\<close> is a non-empty string over \<^verbatim>\<open>[A-Za-z0-9=_-]\<close>,
  \<open>parseDigest\<close> returns the algorithm, the hash and the input itself; for every other
  string it returns null, also for a string that matches the digest pattern with another
  algorithm token (the part before the colon).
\<close>

theorem parseDigest_recognised_exactly:
  "(alg \<in> {''sha256'', ''sha384'', ''sha512''} \<and> h \<noteq> [] \<and> list_all (inCls hashChars) h \<longrightarrow>
      parseDigest (alg @ '':'' @ h) = Some \<lparr>algorithm = alg, hash = h, digest = alg @ '':'' @ h\<rparr>)
   \<and> ((\<nexists>a k. s = a @ '':'' @ k \<and> a \<in> {''sha256'', ''sha384'', ''sha512''} \<and> k \<noteq> []
              \<and> list_all (inCls hashChars) k) \<longrightarrow> parseDigest s = None)
   \<and> (matches digestPattern t \<and> takeWhile (\<lambda>c. c \<noteq> CHR '':'') t \<notin> {''sha256'', ''sha384'', ''sha512''}
        \<longrightarrow> parseDigest t = None)"
proof (intro conjI impI)
  assume "alg \<in> {''sha256'', ''sha384'', ''sha512''} \<and> h \<noteq> [] \<and> list_all (inCls hashChars) h"
  then show "parseDigest (alg @ '':'' @ h) = Some \<lparr>algorithm = alg, hash = h, digest = alg @ '':'' @ h\<rparr>"
    using parseDigest_of_parts [of alg h] known_algorithm_lang [of alg] by simp
next
  assume "\<nexists>a k. s = a @ '':'' @ k \<and> a \<in> {''sha256'', ''sha384'', ''sha512''} \<and> k \<noteq> []
              \<and> list_all (inCls hashChars) k"
  then show "parseDigest s = None"
    using parseDigest_Some_parts [of s] by (cases "parseDigest s") blast+
next
  assume t: "matches digestPattern t \<and> takeWhile (\<lambda>c. c \<noteq> CHR '':'') t \<notin> {''sha256'', ''sha384'', ''sha512''}"
  show "parseDigest t = None"
  proof (cases "parseDigest t")
    case (Some d)
    from parseDigest_Some_parts [OF Some] obtain a k where
      "t = a @ '':'' @ k" "a \<in> {''sha256'', ''sha384'', ''sha512''}" by blast
    then have "takeWhile (\<lambda>c. c \<noteq> CHR '':'') t \<in> {''sha256'', ''sha384'', ''sha512''}"
      by auto
    with t show ?thesis by simp
  qed simp
qed

theorem parseDigest_recognised_exactly_witness:
  "parseDigest ''sha256:abc'' = Some \<lparr>algorithm = ''sha256'', hash = ''abc'', digest = ''sha256:abc''\<rparr>
   \<and> parseDigest ''sha256:'' = None
   \<and> matches digestPattern ''md5:abc'' \<and> parseDigest ''md5:abc'' = None"
proof -
  have 1: "''sha256'' \<in> {''sha256'', ''sha384'', ''sha512''} \<and> ''abc'' \<noteq> [] \<and> list_all (inCls hashChars) ''abc''"
    by (simp add: inCls_def hashChars_def)
  have 2: "\<nexists>a k. ''sha256:'' = a @ '':'' @ k \<and> a \<in> {''sha256'', ''sha384'', ''sha512''} \<and> k \<noteq> []
              \<and> list_all (inCls hashChars) k"
    by auto
  have 3: "matches digestPattern ''md5:abc'' \<and> takeWhile (\<lambda>c. c \<noteq> CHR '':'') ''md5:abc'' \<notin> {''sha256'', ''sha384'', ''sha512''}"
    by (simp add: digestPattern_def algorithmPattern_def Plus_def inCls_def lowerAlnum_def separators_def
        hashChars_def colon_def)
  from parseDigest_recognised_exactly [of "''sha256''" "''abc''" "''sha256:''" "''md5:abc''"] 1 2 3
  show ?thesis by simp
qed

section \<open>Rendering of stored objects\<close>

lemma headerName_literals:
  "headerName ''Range'' = ''range''"
  "headerName ''range'' = ''range''"
  "headerName ''etag'' = ''etag''"
  "headerName ''accept-ranges'' = ''accept-ranges''"
  "headerName ''content-length'' = ''content-length''"
  "headerName ''Content-Length'' = ''content-length''"
  "headerName ''content-range'' = ''content-range''"
  "headerName ''Content-Range'' = ''content-range''"
  "headerName ''content-type'' = ''content-type''"
  "headerName ''Content-Type'' = ''content-type''"
  "headerName ''content-encoding'' = ''content-encoding''"
  "headerName ''Docker-Content-Digest'' = ''docker-content-digest''"
  "headerName ''Docker-Distribution-API-Version'' = ''docker-distribution-api-version''"
  "headerName ''Docker-Distribution-Api-Version'' = ''docker-distribution-api-version''"
  "headerName ''accept'' = ''accept''"
  "headerName ''authorization'' = ''authorization''"
  by (simp_all add: headerName_def lowerChar_def)

lemma writeHttpMetadata_other:
  "headerName n \<noteq> ''content-type'' \<Longrightarrow> headerName n \<noteq> ''content-encoding'' \<Longrightarrow>
   Headers_get (writeHttpMetadata obj hs) n = Headers_get hs n"
  by (simp add: writeHttpMetadata_def Headers_get_def Headers_set_def headerName_literals Let_def
      split: option.splits)

lemma objectResponse_status:
  "status (objectResponse req obj hs) =
     (case obj_body obj of None \<Rightarrow> 304
      | Some b \<Rightarrow> if Headers_has (req_headers req) ''Range'' then 206 else 200)"
  by (simp add: objectResponse_def new_Response_def noInit_def Let_def Headers_has_def Headers_get_def
      headerName_literals split: option.splits)

lemma objectResponse_body: "body (objectResponse req obj hs) = obj_body obj"
  by (simp add: objectResponse_def new_Response_def noInit_def Let_def)

lemma honouredRange_Some:
  assumes "honouredRange req obj = Some (off, len)"
  obtains r where "req_headers req ''range'' \<noteq> None" "obj_range obj = Some r"
    "range_offset r = Some off" "range_length r = Some len"
  using assms
  by (auto simp: honouredRange_def Headers_has_def headerName_literals split: option.splits if_splits)

lemma objectResponse_honoured:
  assumes "honouredRange req obj = Some (off, len)"
  shows "Headers_get (headers (objectResponse req obj hs)) ''Content-Range''
           = Some (''bytes '' @ showNat off @ ''-'' @ showInt (int off + int len - 1) @ ''/''
                   @ showNat (obj_size obj))"
    and "Headers_get (headers (objectResponse req obj hs)) ''Content-Length'' = Some (showNat len)"
proof -
  from assms obtain r where r: "req_headers req ''range'' \<noteq> None" "obj_range obj = Some r"
    "range_offset r = Some off" "range_length r = Some len"
    by (rule honouredRange_Some)
  show "Headers_get (headers (objectResponse req obj hs)) ''Content-Range''
           = Some (''bytes '' @ showNat off @ ''-'' @ showInt (int off + int len - 1) @ ''/''
                   @ showNat (obj_size obj))"
    using r
    by (simp add: objectResponse_def new_Response_def noInit_def Let_def
      Headers_has_def Headers_get_def Headers_set_def headerName_literals contentRange_def
     )
  show "Headers_get (headers (objectResponse req obj hs)) ''Content-Length'' = Some (showNat len)"
    using r
    by (simp add: objectResponse_def new_Response_def noInit_def Let_def
      Headers_has_def Headers_get_def Headers_set_def headerName_literals
     )
qed

lemma objectResponse_not_honoured:
  assumes "honouredRange req obj = None"
  shows "Headers_get (headers (objectResponse req obj hs)) ''Content-Length'' = Some (showNat (obj_size obj))"
    and "Headers_get (headers (objectResponse req obj hs)) ''Content-Range'' = Headers_get hs ''Content-Range''"
  using assms writeHttpMetadata_other [of "''Content-Range''" obj hs]
  by (auto simp add: honouredRange_def objectResponse_def new_Response_def noInit_def Let_def
      Headers_has_def Headers_get_def Headers_set_def headerName_literals
      split: option.splits if_splits)

lemma getObject_read:
  assumes "req_method req \<noteq> ''HEAD''" and "objects w key = Some st"
  shows "getObject E req key hs w =
     (Inr (Some (objectResponse req (selectedObject E (req_headers req) st) hs)),
      record_event (StorageGet key) w)"
  using assms by (simp add: getObject_def storage_get_with_def io_bind_def io_return_def)

text \<open>
  Claim C5. A read other than \<open>HEAD\<close> of an object that is in the store returns a
  response with the body the store returned and with status 206 if the request has a
  \<open>Range\<close> header and a body is present, 200 if a body is present and no range was
  asked for, and 304 with no body when the store returned none (a precondition that did
  not hold). When a range was asked for and honoured, \<open>Content-Range\<close> is
  \<open>bytes off-(off+len-1)/total\<close> and \<open>Content-Length\<close> is the partial length;
  otherwise \<open>Content-Length\<close> is the full size of the object.
\<close>

theorem getObject_read_present:
  assumes "req_method req \<noteq> ''HEAD''" and "objects w key = Some st"
  shows "\<exists>r. getObject E req key hs w = (Inr (Some r), record_event (StorageGet key) w)
     \<and> body r = obj_body (selectedObject E (req_headers req) st)
     \<and> status r =
         (case obj_body (selectedObject E (req_headers req) st) of
            None \<Rightarrow> 304
          | Some b \<Rightarrow> if Headers_has (req_headers req) ''Range'' then 206 else 200)
     \<and> (case honouredRange req (selectedObject E (req_headers req) st) of
           Some (off, len) \<Rightarrow>
             Headers_get (headers r) ''Content-Range''
               = Some (''bytes '' @ showNat off @ ''-'' @ showInt (int off + int len - 1) @ ''/''
                       @ showNat (length (content st)))
             \<and> Headers_get (headers r) ''Content-Length'' = Some (showNat len)
         | None \<Rightarrow>
             Headers_get (headers r) ''Content-Length'' = Some (showNat (length (content st))))"
proof -
  let ?obj = "selectedObject E (req_headers req) st"
  have size: "obj_size ?obj = length (content st)"
    by (simp add: selectedObject_def)
  have "case honouredRange req ?obj of
           Some (off, len) \<Rightarrow>
             Headers_get (headers (objectResponse req ?obj hs)) ''Content-Range''
               = Some (''bytes '' @ showNat off @ ''-'' @ showInt (int off + int len - 1) @ ''/''
                       @ showNat (length (content st)))
             \<and> Headers_get (headers (objectResponse req ?obj hs)) ''Content-Length'' = Some (showNat len)
         | None \<Rightarrow>
             Headers_get (headers (objectResponse req ?obj hs)) ''Content-Length''
               = Some (showNat (length (content st)))"
  proof (cases "honouredRange req ?obj")
    case None
    then show ?thesis
      using objectResponse_not_honoured(1) [OF None, of hs] size by simp
  next
    case (Some p)
    obtain off len where p: "p = (off, len)" by (cases p)
    from Some p have h: "honouredRange req ?obj = Some (off, len)" by simp
    show ?thesis
      using objectResponse_honoured [OF h, of hs] size h by simp
  qed
  then show ?thesis
    using getObject_read [OF assms, of E hs] objectResponse_status [of req ?obj hs]
      objectResponse_body [of req ?obj hs]
    by simp
qed

theorem getObject_read_present_witness:
  "req_method rangeReq \<noteq> ''HEAD'' \<and> objects blobWorld ''alpine/blobs/sha256:abc'' = Some blobStored
   \<and> (\<exists>r. getObject rangeEnv rangeReq ''alpine/blobs/sha256:abc'' Map.empty blobWorld
            = (Inr (Some r), record_event (StorageGet ''alpine/blobs/sha256:abc'') blobWorld)
          \<and> body r = Some ''ell'' \<and> status r = 206
          \<and> Headers_get (headers r) ''Content-Range'' = Some ''bytes 1-3/5''
          \<and> Headers_get (headers r) ''Content-Length'' = Some ''3'')"
proof -
  have 1: "req_method rangeReq \<noteq> ''HEAD''"
    by (simp add: rangeReq_def)
  have 2: "objects blobWorld ''alpine/blobs/sha256:abc'' = Some blobStored"
    by (simp add: blobWorld_def emptyWorld_def)
  have 3: "selectedObject rangeEnv (req_headers rangeReq) blobStored =
    \<lparr>obj_size = 5, httpEtag = ''etag'', httpMetadata = \<lparr>contentType = None, contentEncoding = None\<rparr>,
     obj_range = Some \<lparr>range_offset = Some 1, range_length = Some 3, range_suffix = None\<rparr>,
     obj_body = Some ''ell''\<rparr>"
    by (simp add: selectedObject_def rangeEnv_def staticEnv_def blobStored_def)
  have 4: "Headers_has (req_headers rangeReq) ''Range''"
    by (simp add: Headers_has_def rangeReq_def headerName_literals)
  have 5: "showNat 1 = ''1''" "showNat 3 = ''3''" "showNat 5 = ''5''" "showInt 3 = ''3''"
    by (simp_all add: showInt_def digitChar_def showNat.simps)
  from getObject_read_present [OF 1 2, of rangeEnv Map.empty] 1 2 show ?thesis
    unfolding 3 by (simp add: honouredRange_def 4 5 blobStored_def digitChar_def showNat.simps)
qed

section \<open>The pull-through resolver\<close>

text \<open>
  Claim C3. For a \<open>HEAD\<close> request \<open>pullThroughRegistry\<close> first reads the store. If the
  object is absent it calls the populate action once; if the populate response is not ok
  it returns that response as it is, otherwise it reads the store once more, and if the
  object is still absent it returns a 404 whose body carries the code \<open>BLOB_UNKNOWN\<close>.
  The counters show how often each action ran: one read and no populate call on a hit,
  one populate call on a miss, and a second read exactly when the populate response was ok.
\<close>

theorem pullThroughRegistry_head:
  assumes "req_method req = ''HEAD''"
  shows "pullThroughRegistry E req (countingRead fromR2) (countingPopulate fromRegistry) (0, 0, s) =
     (case fromR2 s of
        (Inl e, s1) \<Rightarrow> (Inl e, (1, 0, s1))
      | (Inr (Some obj), s1) \<Rightarrow> (Inr obj, (1, 0, s1))
      | (Inr None, s1) \<Rightarrow>
          (case fromRegistry s1 of
             (Inl e, s2) \<Rightarrow> (Inl e, (1, 1, s2))
           | (Inr res, s2) \<Rightarrow>
               if \<not> ok res then (Inr res, (1, 1, s2))
               else (case fromR2 s2 of
                       (Inl e, s3) \<Rightarrow> (Inl e, (2, 1, s3))
                     | (Inr (Some obj), s3) \<Rightarrow> (Inr obj, (2, 1, s3))
                     | (Inr None, s3) \<Rightarrow>
                         (Inr (json E (errorsOf ''BLOB_UNKNOWN'') (statusInit 404)), (2, 1, s3)))))
     \<and> status (json E (errorsOf ''BLOB_UNKNOWN'') (statusInit 404)) = 404
     \<and> body (json E (errorsOf ''BLOB_UNKNOWN'') (statusInit 404))
         = Some (JSON_stringify E (JObj [(''errors'', JArr [JObj [(''code'', JStr ''BLOB_UNKNOWN'')]])]))"
proof (intro conjI)
  show "status (json E (errorsOf ''BLOB_UNKNOWN'') (statusInit 404)) = 404"
    by (simp add: json_def response_def new_Response_def statusInit_def noInit_def Let_def)
  show "body (json E (errorsOf ''BLOB_UNKNOWN'') (statusInit 404))
         = Some (JSON_stringify E (JObj [(''errors'', JArr [JObj [(''code'', JStr ''BLOB_UNKNOWN'')]])]))"
    by (simp add: json_def response_def new_Response_def statusInit_def noInit_def Let_def errorsOf_def)
  show "pullThroughRegistry E req (countingRead fromR2) (countingPopulate fromRegistry) (0, 0, s) =
     (case fromR2 s of
        (Inl e, s1) \<Rightarrow> (Inl e, (1, 0, s1))
      | (Inr (Some obj), s1) \<Rightarrow> (Inr obj, (1, 0, s1))
      | (Inr None, s1) \<Rightarrow>
          (case fromRegistry s1 of
             (Inl e, s2) \<Rightarrow> (Inl e, (1, 1, s2))
           | (Inr res, s2) \<Rightarrow>
               if \<not> ok res then (Inr res, (1, 1, s2))
               else (case fromR2 s2 of
                       (Inl e, s3) \<Rightarrow> (Inl e, (2, 1, s3))
                     | (Inr (Some obj), s3) \<Rightarrow> (Inr obj, (2, 1, s3))
                     | (Inr None, s3) \<Rightarrow>
                         (Inr (json E (errorsOf ''BLOB_UNKNOWN'') (statusInit 404)), (2, 1, s3)))))"
    using assms
    by (simp add: pullThroughRegistry_def io_bind_def io_return_def countingRead_def countingPopulate_def
        split: prod.splits sum.splits option.splits)
qed

text \<open>
  The store is empty until the populate action has run: one populate call, two reads, and
  the answer is the object read the second time. With a populate action that leaves the
  store empty the answer is the 404.
\<close>

theorem pullThroughRegistry_head_witness:
  "req_method headReq = ''HEAD''
   \<and> pullThroughRegistry (staticEnv (\<lambda>url hs. None)) headReq
        (countingRead (\<lambda>populated. (Inr (if populated then Some okResponse else None), populated)))
        (countingPopulate (\<lambda>populated. (Inr okResponse, True))) (0, 0, False)
       = (Inr okResponse, (2, 1, True))
   \<and> pullThroughRegistry (staticEnv (\<lambda>url hs. None)) headReq
        (countingRead (\<lambda>populated. (Inr (if populated then Some okResponse else None), populated)))
        (countingPopulate (\<lambda>populated. (Inr okResponse, False))) (0, 0, False)
       = (Inr (json (staticEnv (\<lambda>url hs. None)) (errorsOf ''BLOB_UNKNOWN'') (statusInit 404)), (2, 1, False))"
proof -
  have 1: "req_method headReq = ''HEAD''"
    by (simp add: headReq_def)
  have 2: "ok okResponse"
    by (simp add: ok_def okResponse_def)
  show ?thesis
    using 1
      pullThroughRegistry_head [OF 1, of "staticEnv (\<lambda>url hs. None)"
        "\<lambda>populated. (Inr (if populated then Some okResponse else None), populated)"
        "\<lambda>populated. (Inr okResponse, True)" False]
      pullThroughRegistry_head [OF 1, of "staticEnv (\<lambda>url hs. None)"
        "\<lambda>populated. (Inr (if populated then Some okResponse else None), populated)"
        "\<lambda>populated. (Inr okResponse, False)" False]
    by (simp add: 2)
qed

section \<open>Range requests that the store did not honour\<close>

text \<open>
  Claim C10, as stated, fails: a read with a \<open>Range\<close> header whose precondition does not
  hold gets an object without range metadata and without a body, and the status is 304.
\<close>

theorem getObject_range_without_body_counterexample:
  "req_method conditionalRangeReq \<noteq> ''HEAD''
   \<and> Headers_has (req_headers conditionalRangeReq) ''Range''
   \<and> objects blobWorld ''alpine/blobs/sha256:abc'' = Some blobStored
   \<and> obj_range (selectedObject notModifiedEnv (req_headers conditionalRangeReq) blobStored) = None
   \<and> map_sum id (map_option status)
        (fst (getObject notModifiedEnv conditionalRangeReq ''alpine/blobs/sha256:abc'' Map.empty blobWorld))
       = Inr (Some 304)"
proof -
  have 1: "req_method conditionalRangeReq \<noteq> ''HEAD''"
    by (simp add: conditionalRangeReq_def)
  have 2: "objects blobWorld ''alpine/blobs/sha256:abc'' = Some blobStored"
    by (simp add: blobWorld_def emptyWorld_def)
  have 3: "selectedObject notModifiedEnv (req_headers conditionalRangeReq) blobStored =
    \<lparr>obj_size = 5, httpEtag = ''etag'', httpMetadata = \<lparr>contentType = None, contentEncoding = None\<rparr>,
     obj_range = None, obj_body = None\<rparr>"
    by (simp add: selectedObject_def notModifiedEnv_def staticEnv_def blobStored_def
        conditionalRangeReq_def)
  have 4: "Headers_has (req_headers conditionalRangeReq) ''Range''"
    by (simp add: Headers_has_def conditionalRangeReq_def headerName_literals)
  show ?thesis
    using 1 2 4 by (simp add: getObject_read [OF 1 2] objectResponse_status 3)
qed

text \<open>
  Claim C10, amended. A read other than \<open>HEAD\<close> with a \<open>Range\<close> header, of an object
  that is in the store, for which the store returns a body but no range it honoured (no
  range metadata, or metadata without offset or length), gets status 206 with
  \<open>Content-Length\<close> set to the full size of the object, and no \<open>Content-Range\<close> unless
  the headers passed in had one. (Without a body the status is 304.)
\<close>

theorem getObject_range_not_honoured:
  assumes "req_method req \<noteq> ''HEAD''" and "objects w key = Some st"
    and "Headers_has (req_headers req) ''Range''"
    and "obj_body (selectedObject E (req_headers req) st) = Some b"
    and "honouredRange req (selectedObject E (req_headers req) st) = None"
    and "Headers_get hs ''Content-Range'' = None"
  shows "\<exists>r. getObject E req key hs w = (Inr (Some r), record_event (StorageGet key) w)
     \<and> status r = 206 \<and> body r = Some b
     \<and> Headers_get (headers r) ''Content-Range'' = None
     \<and> Headers_get (headers r) ''Content-Length'' = Some (showNat (length (content st)))"
proof -
  let ?obj = "selectedObject E (req_headers req) st"
  have size: "obj_size ?obj = length (content st)"
    by (simp add: selectedObject_def)
  show ?thesis
    using getObject_read [OF assms(1,2), of E hs] objectResponse_status [of req ?obj hs]
      objectResponse_body [of req ?obj hs] objectResponse_not_honoured [OF assms(5), of hs]
      assms(3,4,6) size
    by simp
qed

theorem getObject_range_not_honoured_witness:
  "req_method rangeReq \<noteq> ''HEAD'' \<and> objects blobWorld ''alpine/blobs/sha256:abc'' = Some blobStored
   \<and> Headers_has (req_headers rangeReq) ''Range''
   \<and> obj_body (selectedObject (staticEnv (\<lambda>url hs. None)) (req_headers rangeReq) blobStored) = Some ''hello''
   \<and> honouredRange rangeReq (selectedObject (staticEnv (\<lambda>url hs. None)) (req_headers rangeReq) blobStored) = None
   \<and> (\<exists>r. getObject (staticEnv (\<lambda>url hs. None)) rangeReq ''alpine/blobs/sha256:abc'' Map.empty blobWorld
            = (Inr (Some r), record_event (StorageGet ''alpine/blobs/sha256:abc'') blobWorld)
          \<and> status r = 206 \<and> body r = Some ''hello''
          \<and> Headers_get (headers r) ''Content-Range'' = None
          \<and> Headers_get (headers r) ''Content-Length'' = Some ''5'')"
proof -
  have 1: "req_method rangeReq \<noteq> ''HEAD''"
    by (simp add: rangeReq_def)
  have 2: "objects blobWorld ''alpine/blobs/sha256:abc'' = Some blobStored"
    by (simp add: blobWorld_def emptyWorld_def)
  have 3: "Headers_has (req_headers rangeReq) ''Range''"
    by (simp add: Headers_has_def rangeReq_def headerName_literals)
  have 4: "obj_body (selectedObject (staticEnv (\<lambda>url hs. None)) (req_headers rangeReq) blobStored) = Some ''hello''"
    by (simp add: selectedObject_def staticEnv_def blobStored_def)
  have 5: "honouredRange rangeReq (selectedObject (staticEnv (\<lambda>url hs. None)) (req_headers rangeReq) blobStored) = None"
    by (simp add: honouredRange_def selectedObject_def staticEnv_def)
  have 6: "Headers_get Map.empty ''Content-Range'' = None"
    by (simp add: Headers_get_def)
  have 7: "showNat (length (content blobStored)) = ''5''"
    by (simp add: blobStored_def digitChar_def showNat.simps)
  from getObject_range_not_honoured [OF 1 2 3 4 5 6] 1 2 3 4 5 show ?thesis
    unfolding 7 by simp
qed

section \<open>The tag resolver\<close>

lemma parseDigest_md5: "parseDigest ''md5:abc'' = None"
  by (simp add: parseDigest_def digestPattern_def algorithmPattern_def Plus_def inCls_def
      lowerAlnum_def separators_def hashChars_def colon_def)

lemma resolveTagToDigest_cached:
  assumes "objects w (name @ ''/tags/'' @ tag) = Some st"
  shows "resolveTagToDigest E name tag w =
     (Inr (parseDigest (content st)), record_event (StorageGet (name @ ''/tags/'' @ tag)) w)"
  using assms
  by (simp add: resolveTagToDigest_def storage_get_def io_bind_def io_return_def objectText_def
      bodyObject_def)

lemma objects_record_event: "objects (record_event ev w) = objects w"
  by (simp add: record_event_def)

lemma resolveRepeatedly_cached:
  assumes "objects w (name @ ''/tags/'' @ tag) = Some st" and "parseDigest (content st) = None"
  shows "resolveRepeatedly n E name tag w =
     (replicate n (Inr None), w\<lparr>trace := trace w @ replicate n (StorageGet (name @ ''/tags/'' @ tag))\<rparr>)"
  using assms(1)
proof (induction n arbitrary: w)
  case 0
  show ?case by simp
next
  case (Suc n)
  let ?w' = "record_event (StorageGet (name @ ''/tags/'' @ tag)) w"
  have "objects ?w' (name @ ''/tags/'' @ tag) = Some st"
    using Suc.prems by (simp add: objects_record_event)
  then have "resolveRepeatedly n E name tag ?w' =
     (replicate n (Inr None), ?w'\<lparr>trace := trace ?w' @ replicate n (StorageGet (name @ ''/tags/'' @ tag))\<rparr>)"
    by (rule Suc.IH)
  then show ?case
    using resolveTagToDigest_cached [OF Suc.prems, of E] assms(2)
    by (simp add: record_event_def replicate_append_same)
qed

text \<open>
  Claim C9. If the store has an entry for the tag whose text is not a valid digest,
  \<open>resolveTagToDigest\<close> returns null; all it does is the one read of that entry, so it
  fetches nothing from the upstream and the objects of the store are what they were.
  Resolving the tag any number of times therefore gives null every time.
\<close>

theorem resolveTagToDigest_invalid_mapping:
  assumes "objects w (name @ ''/tags/'' @ tag) = Some st" and "parseDigest (content st) = None"
  shows "resolveTagToDigest E name tag w =
           (Inr None, w\<lparr>trace := trace w @ [StorageGet (name @ ''/tags/'' @ tag)]\<rparr>)
     \<and> objects (snd (resolveTagToDigest E name tag w)) = objects w
     \<and> uploads (snd (resolveTagToDigest E name tag w)) = uploads w
     \<and> resolveRepeatedly n E name tag w =
           (replicate n (Inr None),
            w\<lparr>trace := trace w @ replicate n (StorageGet (name @ ''/tags/'' @ tag))\<rparr>)"
  using resolveTagToDigest_cached [OF assms(1), of E] assms(2) resolveRepeatedly_cached [OF assms, of n E]
  by (simp add: record_event_def)

theorem resolveTagToDigest_invalid_mapping_witness:
  "objects staleTagWorld (''alpine'' @ ''/tags/'' @ ''latest'')
     = Some \<lparr>content = ''md5:abc'', metadata = \<lparr>contentType = None, contentEncoding = None\<rparr>, etag = ''etag''\<rparr>
   \<and> parseDigest ''md5:abc'' = None
   \<and> resolveTagToDigest md5Env ''alpine'' ''latest'' staleTagWorld
       = (Inr None, staleTagWorld\<lparr>trace := [StorageGet ''alpine/tags/latest'']\<rparr>)
   \<and> resolveRepeatedly 3 md5Env ''alpine'' ''latest'' staleTagWorld
       = ([Inr None, Inr None, Inr None],
          staleTagWorld\<lparr>trace := [StorageGet ''alpine/tags/latest'', StorageGet ''alpine/tags/latest'',
                                   StorageGet ''alpine/tags/latest'']\<rparr>)"
proof -
  have 1: "objects staleTagWorld (''alpine'' @ ''/tags/'' @ ''latest'')
     = Some \<lparr>content = ''md5:abc'', metadata = \<lparr>contentType = None, contentEncoding = None\<rparr>, etag = ''etag''\<rparr>"
    by (simp add: staleTagWorld_def emptyWorld_def)
  have 2: "parseDigest (content \<lparr>content = ''md5:abc'', metadata = \<lparr>contentType = None, contentEncoding = None\<rparr>, etag = ''etag''\<rparr>) = None"
    by (simp add: parseDigest_md5)
  have 3: "trace staleTagWorld = []"
    by (simp add: staleTagWorld_def emptyWorld_def)
  have 4: "replicate 3 x = [x, x, x]" for x :: "'a"
    by (simp add: numeral_3_eq_3)
  from resolveTagToDigest_invalid_mapping [OF 1 2, of md5Env 3] 1 show ?thesis
    by (simp add: parseDigest_md5 3 4)
qed

text \<open>
  Claim C1 asks that no mapping is written for a header that does not parse. The code
  writes the header before it parses it: with an empty store and an upstream that sends
  \<open>Docker-Content-Digest: md5:abc\<close>, the result is null and the store then maps the tag
  to \<open>md5:abc\<close>.
\<close>

theorem resolveTagToDigest_persists_unparsable:
  "objects emptyWorld ''alpine/tags/latest'' = None
   \<and> ok md5Response
   \<and> Headers_get (headers md5Response) ''Docker-Content-Digest'' = Some ''md5:abc''
   \<and> parseDigest ''md5:abc'' = None
   \<and> fst (resolveTagToDigest md5Env ''alpine'' ''latest'' emptyWorld) = Inr None
   \<and> map_option content (objects (snd (resolveTagToDigest md5Env ''alpine'' ''latest'' emptyWorld))
        ''alpine/tags/latest'') = Some ''md5:abc''"
  by (simp add: parseDigest_md5 resolveTagToDigest_def storage_get_def io_bind_def io_return_def
      fetchFromRegistry_def md5Env_def staticEnv_def md5Response_def ok_def Headers_get_def
      Headers_set_def headerName_literals storage_put_def noOptions_def record_event_def
      emptyWorld_def Let_def)

section \<open>Import of a blob\<close>

lemma fetchFromRegistry_result:
  "fetchFromRegistry E url hs w =
     ((case fetch E (trace w) (registryURL E url) (sentHeaders E hs) of
         None \<Rightarrow> Inl NetworkError | Some res \<Rightarrow> Inr res),
      record_event (Fetched (registryURL E url) (sentHeaders E hs)
                      (fetch E (trace w) (registryURL E url) (sentHeaders E hs))) w)"
  by (simp add: fetchFromRegistry_def sentHeaders_def Headers_set_def headerName_literals Let_def)

lemma fetchFromRegistry_Inr:
  assumes "fetchFromRegistry E url hs w = (Inr res, w1)"
  shows "w1 = record_event (Fetched (registryURL E url) (sentHeaders E hs) (Some res)) w"
  using assms unfolding fetchFromRegistry_result by (auto split: option.splits)

lemma contentLength_small:
  assumes "case Headers_get (headers res) ''Content-Length'' of
             None \<Rightarrow> True | Some v \<Rightarrow> \<exists>x. Number E v = Finite x \<and> x \<le> 262144000"
  shows "\<not> js_gt (contentLengthOf E res) (Finite (of_nat partSize))"
  using assms
  by (auto simp: contentLengthOf_def Headers_get_def headerName_literals partSize_def
      split: option.splits)

lemma importBlob_single:
  assumes f: "fetchFromRegistry E (''https://registry/v2/'' @ name @ ''/blobs/'' @ digest d) Map.empty w
                = (Inr res, w1)"
    and res: "ok res" "body res = Some b"
    and small: "\<not> js_gt (contentLengthOf E res) (Finite (of_nat partSize))"
  shows "importBlob E name d w =
     (if r2_checksum E (hash d) b
      then (Inr (new_Response (Some b) (initOf res)),
            w1\<lparr>objects := (objects w1)(name @ ''/blobs/'' @ digest d \<mapsto>
                    \<lparr>content = b, metadata = put_httpMetadata (putOptions d res), etag = r2_etag E b\<rparr>),
               trace := trace w1 @ [StoragePut (name @ ''/blobs/'' @ digest d) True,
                                    StorageGet (name @ ''/blobs/'' @ digest d)]\<rparr>)
      else (Inl StorageError,
            w1\<lparr>trace := trace w1 @ [StoragePut (name @ ''/blobs/'' @ digest d) False]\<rparr>))"
  using f res small
  by (simp add: importBlob_def io_bind_def io_return_def storage_put_def storage_get_def
      putOptions_def record_event_def bodyObject_def new_Response_def initOf_def)

text \<open>
  Claim C8. When the upstream answers the request for a blob with an ok response that has
  a body and whose \<open>Content-Length\<close> is absent or is a number of at most 262144000
  (250 MiB itself included), \<open>importBlob\<close> writes the blob with one \<open>put\<close> and starts
  no multipart upload: after the fetch, the trace has the one \<open>put\<close> and, if the bucket
  accepted it, the read of the stored object; the uploads of the bucket are untouched.
  The bucket accepts the \<open>put\<close> when the value fits the checksum it is given; then the
  blob is stored under its key, and otherwise the \<open>put\<close> throws.
\<close>

theorem importBlob_single_shot:
  assumes "fetchFromRegistry E (''https://registry/v2/'' @ name @ ''/blobs/'' @ digest d) Map.empty w
             = (Inr res, w1)"
    and "ok res" and "body res = Some b"
    and "case Headers_get (headers res) ''Content-Length'' of
           None \<Rightarrow> True | Some v \<Rightarrow> \<exists>x. Number E v = Finite x \<and> x \<le> 262144000"
  shows "\<exists>r w'. importBlob E name d w = (r, w')
     \<and> trace w' = trace w
          @ [Fetched (blobURL E name d) (sentHeaders E Map.empty) (Some res),
             StoragePut (name @ ''/blobs/'' @ digest d) (r2_checksum E (hash d) b)]
          @ (if r2_checksum E (hash d) b then [StorageGet (name @ ''/blobs/'' @ digest d)] else [])
     \<and> uploads w' = uploads w \<and> nextUpload w' = nextUpload w
     \<and> (if r2_checksum E (hash d) b
         then r = Inr (new_Response (Some b) (initOf res))
              \<and> map_option content (objects w' (name @ ''/blobs/'' @ digest d)) = Some b
              \<and> (\<forall>k. k \<noteq> name @ ''/blobs/'' @ digest d \<longrightarrow> objects w' k = objects w k)
         else r = Inl StorageError \<and> objects w' = objects w)"
proof -
  have small: "\<not> js_gt (contentLengthOf E res) (Finite (of_nat partSize))"
    using assms(4) by (rule contentLength_small)
  have w1: "w1 = record_event (Fetched (blobURL E name d) (sentHeaders E Map.empty) (Some res)) w"
    using fetchFromRegistry_Inr [OF assms(1)] by (simp add: blobURL_def)
  show ?thesis
    unfolding importBlob_single [OF assms(1,2,3) small] w1
    by (simp add: record_event_def)
qed

theorem importBlob_single_shot_witness:
  "fetchFromRegistry helloEnv (''https://registry/v2/'' @ ''alpine'' @ ''/blobs/'' @ digest abcDigest)
       Map.empty emptyWorld
     = (Inr helloResponse,
        record_event (Fetched ''https://registry/v2/alpine/blobs/sha256:abc''
                        (sentHeaders helloEnv Map.empty) (Some helloResponse)) emptyWorld)
   \<and> ok helloResponse \<and> body helloResponse = Some ''hello''
   \<and> Headers_get (headers helloResponse) ''Content-Length'' = None
   \<and> (\<exists>r w'. importBlob helloEnv ''alpine'' abcDigest emptyWorld = (r, w')
        \<and> trace w' =
            [Fetched ''https://registry/v2/alpine/blobs/sha256:abc'' (sentHeaders helloEnv Map.empty)
               (Some helloResponse),
             StoragePut ''alpine/blobs/sha256:abc'' True, StorageGet ''alpine/blobs/sha256:abc'']
        \<and> uploads w' = Map.empty
        \<and> r = Inr (new_Response (Some ''hello'') (initOf helloResponse))
        \<and> map_option content (objects w' ''alpine/blobs/sha256:abc'') = Some ''hello'')"
proof -
  have 1: "fetchFromRegistry helloEnv (''https://registry/v2/'' @ ''alpine'' @ ''/blobs/'' @ digest abcDigest)
       Map.empty emptyWorld
     = (Inr helloResponse,
        record_event (Fetched ''https://registry/v2/alpine/blobs/sha256:abc''
                        (sentHeaders helloEnv Map.empty) (Some helloResponse)) emptyWorld)"
    by (simp add: fetchFromRegistry_result helloEnv_def staticEnv_def abcDigest_def)
  have 2: "ok helloResponse" "body helloResponse = Some ''hello''"
    by (simp_all add: ok_def helloResponse_def)
  have 3: "Headers_get (headers helloResponse) ''Content-Length'' = None"
    by (simp add: Headers_get_def helloResponse_def)
  have 4: "case Headers_get (headers helloResponse) ''Content-Length'' of
           None \<Rightarrow> True | Some v \<Rightarrow> \<exists>x. Number helloEnv v = Finite x \<and> x \<le> 262144000"
    by (simp add: 3)
  have 5: "r2_checksum helloEnv (hash abcDigest) ''hello''"
    by (simp add: helloEnv_def staticEnv_def)
  have 6: "blobURL helloEnv ''alpine'' abcDigest = ''https://registry/v2/alpine/blobs/sha256:abc''"
    by (simp add: blobURL_def helloEnv_def staticEnv_def abcDigest_def)
  have 7: "trace emptyWorld = []" "uploads emptyWorld = Map.empty" "digest abcDigest = ''sha256:abc''"
    by (simp_all add: emptyWorld_def abcDigest_def)
  from importBlob_single_shot [OF 1 2 4] 1 2 3 show ?thesis
    by (simp add: 5 6 7) blast
qed

section \<open>Multipart import of a large blob\<close>

lemma partHeaders_eq:
  "sentHeaders E (Headers_set Map.empty ''Range'' (byteRange idx)) = partHeaders E idx"
  by (simp add: partHeaders_def Headers_set_def headerName_literals byteRange_def partSize_def)

lemma uploadParts_done:
  "\<not> idx < partCount cl \<Longrightarrow> uploadParts E name d u cl idx parts w = (Inr parts, w)"
  by (subst uploadParts.simps) (simp add: io_return_def)

lemma uploadParts_step:
  assumes "idx < partCount cl" and "uploads w u = Some up"
  shows "uploadParts E name d u cl idx parts w =
     (case fetch E (trace w) (blobURL E name d) (partHeaders E idx) of
        None \<Rightarrow>
          (Inl NetworkError,
           w\<lparr>trace := trace w @ [Fetched (blobURL E name d) (partHeaders E idx) None]\<rparr>)
      | Some res \<Rightarrow>
          (case (if ok res then body res else None) of
             None \<Rightarrow>
               (Inl (FailedToFetchBlobPart idx (status res) (statusText res)),
                w\<lparr>trace := trace w @ [Fetched (blobURL E name d) (partHeaders E idx) (Some res)]\<rparr>)
           | Some b \<Rightarrow>
               uploadParts E name d u cl (idx + 1)
                 (parts @ [\<lparr>partNumber = idx + 1, part_etag = r2_etag E b\<rparr>])
                 (w\<lparr>uploads := (uploads w)(u \<mapsto> up\<lparr>upload_parts := (upload_parts up)(idx + 1 \<mapsto> b)\<rparr>),
                    trace := trace w @ [Fetched (blobURL E name d) (partHeaders E idx) (Some res),
                                        PartUploaded u (idx + 1)]\<rparr>)))"
  using assms
  by (subst uploadParts.simps)
    (simp add: io_bind_def io_throw_def fetchFromRegistry_result partHeaders_eq blobURL_def
      uploadPart_def record_event_def split: option.splits)

lemma collectParts_update:
  "\<forall>p\<in>set parts. partNumber p \<noteq> k \<Longrightarrow> collectParts (m(k \<mapsto> v)) parts = collectParts m parts"
  by (induction parts) (auto split: option.splits)

lemma collectParts_snoc:
  "collectParts m (parts @ [p]) =
     (case collectParts m parts of
        None \<Rightarrow> None
      | Some a \<Rightarrow> (case m (partNumber p) of None \<Rightarrow> None | Some v \<Rightarrow> Some (a @ v)))"
  by (induction parts) (auto split: option.splits)

lemma uploadParts_outcome:
  assumes "uploads w u = Some up" and "collectParts (upload_parts up) parts = Some acc"
    and "\<forall>p\<in>set parts. partNumber p \<le> idx" and "idx \<le> partCount cl"
  shows "(\<exists>rs ps up'. uploadParts E name d u cl idx parts w
              = (Inr ps, w\<lparr>uploads := (uploads w)(u \<mapsto> up'),
                            trace := trace w @ partEvents E name d u idx rs\<rparr>)
            \<and> idx + length rs = partCount cl \<and> list_all (\<lambda>r. goodAnswer (Some r)) rs
            \<and> upload_key up' = upload_key up \<and> upload_metadata up' = upload_metadata up
            \<and> collectParts (upload_parts up') ps = Some (acc @ concat (map partBody rs)))
       \<or> (\<exists>rs bad e up'. uploadParts E name d u cl idx parts w
              = (Inl e, w\<lparr>uploads := (uploads w)(u \<mapsto> up'),
                           trace := trace w @ partEvents E name d u idx rs
                             @ [Fetched (blobURL E name d) (partHeaders E (idx + length rs)) bad]\<rparr>)
            \<and> idx + length rs < partCount cl \<and> list_all (\<lambda>r. goodAnswer (Some r)) rs
            \<and> \<not> goodAnswer bad)"
  using assms
proof (induction k \<equiv> "partCount cl - idx" arbitrary: idx parts w up acc)
  case 0
  then have fin: "\<not> idx < partCount cl" by simp
  have "uploadParts E name d u cl idx parts w
          = (Inr parts, w\<lparr>uploads := (uploads w)(u \<mapsto> up),
                          trace := trace w @ partEvents E name d u idx []\<rparr>)"
    using uploadParts_done [OF fin] "0.prems"(1) by (simp add: map_upd_triv)
  moreover have "idx + length ([] :: response list) = partCount cl"
    using fin "0.prems"(4) by simp
  ultimately show ?case
    using "0.prems"(2)
    by - (rule disjI1, rule exI [of _ "[]"], rule exI [of _ parts], rule exI [of _ up],
        (intro conjI; (assumption | simp)))
next
  case (Suc k)
  then have lt: "idx < partCount cl" by simp
  note step = uploadParts_step [OF lt Suc.prems(1), of E name d parts]
  show ?case
  proof (cases "fetch E (trace w) (blobURL E name d) (partHeaders E idx)")
    case None
    have "uploadParts E name d u cl idx parts w
          = (Inl NetworkError, w\<lparr>uploads := (uploads w)(u \<mapsto> up),
               trace := trace w @ partEvents E name d u idx []
                  @ [Fetched (blobURL E name d) (partHeaders E (idx + length ([] :: response list))) None]\<rparr>)"
      using step None Suc.prems(1) by (simp add: map_upd_triv)
    then show ?thesis
      using lt
      by - (rule disjI2, rule exI [of _ "[]"], rule exI [of _ None], rule exI [of _ NetworkError],
          rule exI [of _ up], (intro conjI; (assumption | simp add: goodAnswer_def)))
  next
    case (Some res)
    show ?thesis
    proof (cases "if ok res then body res else None")
      case None
      have "uploadParts E name d u cl idx parts w
          = (Inl (FailedToFetchBlobPart idx (status res) (statusText res)),
             w\<lparr>uploads := (uploads w)(u \<mapsto> up),
               trace := trace w @ partEvents E name d u idx []
                  @ [Fetched (blobURL E name d) (partHeaders E (idx + length ([] :: response list)))
                       (Some res)]\<rparr>)"
        using step Some None Suc.prems(1) by (simp add: map_upd_triv)
      moreover have "\<not> goodAnswer (Some res)"
        using None by (auto simp: goodAnswer_def split: if_splits)
      ultimately show ?thesis
        using lt
        by - (rule disjI2, rule exI [of _ "[]"], rule exI [of _ "Some res"],
            rule exI [of _ "FailedToFetchBlobPart idx (status res) (statusText res)"],
            rule exI [of _ up], (intro conjI; (assumption | simp)))
    next
      case b: (Some b)
      let ?part = "\<lparr>partNumber = idx + 1, part_etag = r2_etag E b\<rparr>"
      let ?up2 = "up\<lparr>upload_parts := (upload_parts up)(idx + 1 \<mapsto> b)\<rparr>"
      let ?w2 = "w\<lparr>uploads := (uploads w)(u \<mapsto> ?up2),
                    trace := trace w @ [Fetched (blobURL E name d) (partHeaders E idx) (Some res),
                                        PartUploaded u (idx + 1)]\<rparr>"
      have good: "goodAnswer (Some res)" and body: "partBody res = b"
        using b by (auto simp: goodAnswer_def partBody_def split: if_splits)
      have run: "uploadParts E name d u cl idx parts w
                  = uploadParts E name d u cl (idx + 1) (parts @ [?part]) ?w2"
        using step Some b by simp
      have k: "k = partCount cl - (idx + 1)"
        using Suc.hyps(2) by simp
      have p1: "uploads ?w2 u = Some ?up2" by simp
      have "\<forall>p\<in>set parts. partNumber p \<noteq> idx + 1"
        using Suc.prems(3) by auto
      then have "collectParts (upload_parts ?up2) parts = Some acc"
        using Suc.prems(2) by (simp add: collectParts_update)
      then have p2: "collectParts (upload_parts ?up2) (parts @ [?part]) = Some (acc @ b)"
        by (simp add: collectParts_snoc)
      have p3: "\<forall>p\<in>set (parts @ [?part]). partNumber p \<le> idx + 1"
        using Suc.prems(3) by auto
      have p4: "idx + 1 \<le> partCount cl"
        using lt by simp
      from Suc.hyps(1) [OF k p1 p2 p3 p4] show ?thesis
      proof (elim disjE exE conjE)
        fix rs ps up'
        assume r: "uploadParts E name d u cl (idx + 1) (parts @ [?part]) ?w2
              = (Inr ps, ?w2\<lparr>uploads := (uploads ?w2)(u \<mapsto> up'),
                            trace := trace ?w2 @ partEvents E name d u (idx + 1) rs\<rparr>)"
          and len: "idx + 1 + length rs = partCount cl"
          and all: "list_all (\<lambda>r. goodAnswer (Some r)) rs"
          and key: "upload_key up' = upload_key ?up2" "upload_metadata up' = upload_metadata ?up2"
          and col: "collectParts (upload_parts up') ps = Some ((acc @ b) @ concat (map partBody rs))"
        have "uploadParts E name d u cl idx parts w
              = (Inr ps, w\<lparr>uploads := (uploads w)(u \<mapsto> up'),
                            trace := trace w @ partEvents E name d u idx (res # rs)\<rparr>)"
          using run r by simp
        then show ?thesis
          using len all key col good body
          by - (rule disjI1, rule exI [of _ "res # rs"], rule exI [of _ ps], rule exI [of _ up'],
              (intro conjI; (assumption | simp)))
      next
        fix rs bad e up'
        assume r: "uploadParts E name d u cl (idx + 1) (parts @ [?part]) ?w2
              = (Inl e, ?w2\<lparr>uploads := (uploads ?w2)(u \<mapsto> up'),
                           trace := trace ?w2 @ partEvents E name d u (idx + 1) rs
                             @ [Fetched (blobURL E name d) (partHeaders E (idx + 1 + length rs)) bad]\<rparr>)"
          and len: "idx + 1 + length rs < partCount cl"
          and all: "list_all (\<lambda>r. goodAnswer (Some r)) rs"
          and bad: "\<not> goodAnswer bad"
        have "uploadParts E name d u cl idx parts w
              = (Inl e, w\<lparr>uploads := (uploads w)(u \<mapsto> up'),
                           trace := trace w @ partEvents E name d u idx (res # rs)
                             @ [Fetched (blobURL E name d) (partHeaders E (idx + length (res # rs))) bad]\<rparr>)"
          using run r by simp
        then show ?thesis
          using len all bad good
          by - (rule disjI2, rule exI [of _ "res # rs"], rule exI [of _ bad], rule exI [of _ e],
              rule exI [of _ up'], (intro conjI; (assumption | simp)))
      qed
    qed
  qed
qed


lemma importBlob_multipart_unfold:
  assumes f: "fetchFromRegistry E (''https://registry/v2/'' @ name @ ''/blobs/'' @ digest d) Map.empty w
                = (Inr res, w1)"
    and res: "ok res" "body res = Some b"
    and large: "js_gt (contentLengthOf E res) (Finite (of_nat partSize))"
  shows "importBlob E name d w =
     (case uploadParts E name d (nextUpload w) (contentLengthOf E res) 0 []
             (w\<lparr>uploads := (uploads w)(nextUpload w \<mapsto>
                     \<lparr>upload_key = name @ ''/blobs/'' @ digest d,
                      upload_metadata = put_httpMetadata (putOptions d res),
                      upload_parts = Map.empty\<rparr>),
                 nextUpload := Suc (nextUpload w),
                 trace := trace w @ [Fetched (blobURL E name d) (sentHeaders E Map.empty) (Some res),
                                     MultipartCreated (name @ ''/blobs/'' @ digest d) (nextUpload w)]\<rparr>) of
        (Inl e, w3) \<Rightarrow>
          (Inl e, w3\<lparr>uploads := (uploads w3)(nextUpload w := None),
                      trace := trace w3 @ [Aborted (nextUpload w)]\<rparr>)
      | (Inr ps, w3) \<Rightarrow>
          (case complete E (nextUpload w) ps w3 of
             (Inl e, w4) \<Rightarrow>
               (Inl e, w4\<lparr>uploads := (uploads w4)(nextUpload w := None),
                           trace := trace w4 @ [Aborted (nextUpload w)]\<rparr>)
           | (Inr x, w4) \<Rightarrow>
               (case objects w4 (name @ ''/blobs/'' @ digest d) of
                  None \<Rightarrow> (Inr (new_Response None (statusInit 404)),
                            w4\<lparr>trace := trace w4 @ [StorageGet (name @ ''/blobs/'' @ digest d)]\<rparr>)
                | Some st \<Rightarrow> (Inr (new_Response (Some (content st)) (initOf res)),
                            w4\<lparr>trace := trace w4 @ [StorageGet (name @ ''/blobs/'' @ digest d)]\<rparr>))))"
proof -
  have "fetchFromRegistry E (''https://registry/v2/'' @ name @ ''/blobs/'' @ digest d) Map.empty w
          = (Inr res, w\<lparr>trace := trace w @ [Fetched (blobURL E name d) (sentHeaders E Map.empty) (Some res)]\<rparr>)"
    using f fetchFromRegistry_Inr [OF f] by (simp add: blobURL_def record_event_def)
  then show ?thesis
    using res large
    by (simp add: importBlob_def io_bind_def io_return_def io_catch_def io_throw_def
        createMultipartUpload_def abort_def storage_get_def record_event_def bodyObject_def
        split: prod.splits sum.splits option.splits)
qed





section \<open>The version header\<close>

lemma parseDigest_abc: "parseDigest ''sha256:abc'' = Some abcDigest"
  by (simp add: parseDigest_def digestPattern_def algorithmPattern_def Plus_def inCls_def
      lowerAlnum_def separators_def hashChars_def colon_def abcDigest_def)

lemma hasApiVersion_response: "hasApiVersion (response b init)"
  by (simp add: hasApiVersion_def response_def new_Response_def Headers_get_def Headers_set_def Let_def)

lemma hasApiVersion_emptyResponse: "hasApiVersion (emptyResponse init)"
  by (simp add: emptyResponse_def hasApiVersion_response)

lemma hasApiVersion_json: "hasApiVersion (json E data init)"
  by (simp add: json_def hasApiVersion_response Let_def)

lemma routeHeaders_version:
  "Headers_get (routeHeaders d) ''Docker-Distribution-API-Version'' = Some ''registry/2.0''"
  by (simp add: routeHeaders_def Headers_get_def Headers_set_def headerName_literals)

lemma objectResponse_version:
  "Headers_get (headers (objectResponse req obj hs)) ''Docker-Distribution-API-Version''
     = Headers_get hs ''Docker-Distribution-API-Version''"
  by (simp add: objectResponse_def new_Response_def noInit_def Let_def writeHttpMetadata_def
      Headers_get_def Headers_set_def headerName_literals split: option.splits)

lemma getObject_result:
  "getObject E req key hs w =
     (if req_method req = ''HEAD'' then
        (Inr (map_option (\<lambda>obj. emptyResponse (noInit\<lparr>init_headers := Some
                 (Headers_set (Headers_set (Headers_set (writeHttpMetadata obj hs)
                    ''accept-ranges'' ''bytes'') ''etag'' (httpEtag obj))
                    ''content-length'' (showNat (obj_size obj)))\<rparr>))
               (map_option headObject (objects w key))),
         record_event (StorageHead key) w)
      else
        (Inr (map_option (\<lambda>st. objectResponse req (selectedObject E (req_headers req) st) hs)
               (objects w key)),
         record_event (StorageGet key) w))"
  by (simp add: getObject_def io_bind_def io_return_def storage_head_def storage_get_with_def Let_def
      split: option.splits)

lemma getObject_version:
  assumes "getObject E req key (routeHeaders d) w = (x, w')"
  shows "\<exists>found. x = Inr found \<and> (\<forall>r. found = Some r \<longrightarrow> hasApiVersion r)"
proof (cases "req_method req = ''HEAD''")
  case True
  with assms show ?thesis
    unfolding getObject_result by (cases "objects w key") (auto simp: hasApiVersion_emptyResponse)
next
  case False
  with assms show ?thesis
    unfolding getObject_result
    by (cases "objects w key") (auto simp: hasApiVersion_def objectResponse_version routeHeaders_version)
qed

lemma fromUpstream_append:
  "fromUpstream (tr @ evs) r \<longleftrightarrow> fromUpstream tr r \<or> fromUpstream evs r"
  by (simp add: fromUpstream_def)

lemma fromUpstream_Fetched:
  "fromUpstream (Fetched url hs (Some u) # evs) r \<longleftrightarrow> headers r = headers u \<or> fromUpstream evs r"
  by (simp add: fromUpstream_def)

lemma new_Response_initOf: "headers (new_Response b (initOf res)) = headers res"
  by (simp add: new_Response_def initOf_def)

lemma importManifest_headers:
  assumes "importManifest E name d w = (Inr r, w')"
  shows "fromUpstream (trace w') r \<or> r = new_Response None (statusInit 404)"
proof (cases "fetch E (trace w)
                (registryURL E (''https://registry/v2/'' @ name @ ''/manifests/'' @ digest d))
                (sentHeaders E Map.empty)")
  case None
  with assms show ?thesis
    by (simp add: importManifest_def io_bind_def fetchFromRegistry_result)
next
  case (Some res)
  show ?thesis
  proof (cases "if ok res then body res else None")
    case None
    with assms Some have "r = res" and "w' = record_event (Fetched
        (registryURL E (''https://registry/v2/'' @ name @ ''/manifests/'' @ digest d))
        (sentHeaders E Map.empty) (Some res)) w"
      by (auto simp: importManifest_def io_bind_def io_return_def fetchFromRegistry_result
          split: if_splits option.splits)
    then show ?thesis
      by (simp add: record_event_def fromUpstream_append fromUpstream_Fetched)
  next
    case b: (Some b)
    then have ok: "ok res" and body: "body res = Some b"
      by (auto split: if_splits)
    from assms Some ok body
    have "(r = new_Response None (statusInit 404) \<or> headers r = headers res)
        \<and> (\<exists>evs. trace w' = trace w @ Fetched
              (registryURL E (''https://registry/v2/'' @ name @ ''/manifests/'' @ digest d))
              (sentHeaders E Map.empty) (Some res) # evs)"
      by (auto simp: importManifest_def io_bind_def io_return_def fetchFromRegistry_result
          storage_put_def storage_get_def record_event_def new_Response_initOf
          split: if_splits option.splits)
    then show ?thesis
      by (auto simp: fromUpstream_append fromUpstream_Fetched)
  qed
qed

lemma importBlob_large_headers:
  assumes f: "fetchFromRegistry E (''https://registry/v2/'' @ name @ ''/blobs/'' @ digest d) Map.empty w
                = (Inr res, w1)"
    and res: "ok res" "body res = Some b"
    and large: "js_gt (contentLengthOf E res) (Finite (of_nat partSize))"
    and run: "importBlob E name d w = (Inr r, w')"
  shows "fromUpstream (trace w') r"
proof -
  let ?key = "name @ ''/blobs/'' @ digest d"
  let ?u = "nextUpload w"
  let ?up0 = "\<lparr>upload_key = ?key, upload_metadata = put_httpMetadata (putOptions d res),
               upload_parts = Map.empty\<rparr>"
  let ?f = "Fetched (blobURL E name d) (sentHeaders E Map.empty) (Some res)"
  let ?w2 = "w\<lparr>uploads := (uploads w)(?u \<mapsto> ?up0), nextUpload := Suc ?u,
                trace := trace w @ [?f, MultipartCreated ?key ?u]\<rparr>"
  note unfold = importBlob_multipart_unfold [OF f res large]
  have "uploads ?w2 ?u = Some ?up0" "collectParts (upload_parts ?up0) [] = Some []"
    "\<forall>p\<in>set ([] :: R2UploadedPart list). partNumber p \<le> 0" "0 \<le> partCount (contentLengthOf E res)"
    by simp_all
  from uploadParts_outcome [OF this, of E name d] show ?thesis
  proof (elim disjE exE conjE)
    fix rs ps up'
    assume up: "uploadParts E name d ?u (contentLengthOf E res) 0 [] ?w2
              = (Inr ps, ?w2\<lparr>uploads := (uploads ?w2)(?u \<mapsto> up'),
                            trace := trace ?w2 @ partEvents E name d ?u 0 rs\<rparr>)"
      and key: "upload_key up' = upload_key ?up0"
      and col: "collectParts (upload_parts up') ps = Some ([] @ concat (map partBody rs))"
    have "importBlob E name d w =
              (Inr (new_Response (Some (concat (map partBody rs))) (initOf res)),
               w\<lparr>objects := (objects w)(?key \<mapsto>
                       \<lparr>content = concat (map partBody rs),
                        metadata = upload_metadata up',
                        etag = r2_etag E (concat (map partBody rs))\<rparr>),
                  uploads := (uploads w)(?u := None),
                  nextUpload := Suc ?u,
                  trace := trace w @ [?f, MultipartCreated ?key ?u]
                    @ partEvents E name d ?u 0 rs @ [Completed ?u, StorageGet ?key]\<rparr>)"
      unfolding unfold up using key col
      by (simp add: complete_def record_event_def)
    with run have "headers r = headers res" and "trace w' = trace w @ ?f # MultipartCreated ?key ?u
                    # partEvents E name d ?u 0 rs @ [Completed ?u, StorageGet ?key]"
      by (auto simp: new_Response_initOf)
    then show ?thesis
      by (simp add: fromUpstream_append fromUpstream_Fetched)
  next
    fix rs bad e up'
    assume "uploadParts E name d ?u (contentLengthOf E res) 0 [] ?w2
              = (Inl e, ?w2\<lparr>uploads := (uploads ?w2)(?u \<mapsto> up'),
                           trace := trace ?w2 @ partEvents E name d ?u 0 rs
                             @ [Fetched (blobURL E name d) (partHeaders E (0 + length rs)) bad]\<rparr>)"
    with run show ?thesis
      unfolding unfold by simp
  qed
qed

lemma importBlob_headers:
  assumes "importBlob E name d w = (Inr r, w')"
  shows "fromUpstream (trace w') r \<or> r = new_Response None (statusInit 404)"
proof (cases "fetch E (trace w)
                (registryURL E (''https://registry/v2/'' @ name @ ''/blobs/'' @ digest d))
                (sentHeaders E Map.empty)")
  case None
  with assms show ?thesis
    by (simp add: importBlob_def io_bind_def fetchFromRegistry_result)
next
  case (Some res)
  let ?f = "Fetched (registryURL E (''https://registry/v2/'' @ name @ ''/blobs/'' @ digest d))
              (sentHeaders E Map.empty) (Some res)"
  have f: "fetchFromRegistry E (''https://registry/v2/'' @ name @ ''/blobs/'' @ digest d) Map.empty w
             = (Inr res, record_event ?f w)"
    using Some by (simp add: fetchFromRegistry_result)
  show ?thesis
  proof (cases "if ok res then body res else None")
    case None
    with assms Some have "r = res" and "w' = record_event ?f w"
      by (auto simp: importBlob_def io_bind_def io_return_def fetchFromRegistry_result
          split: if_splits option.splits)
    then show ?thesis
      by (simp add: record_event_def fromUpstream_append fromUpstream_Fetched)
  next
    case b: (Some b)
    then have res: "ok res" "body res = Some b"
      by (auto split: if_splits)
    show ?thesis
    proof (cases "js_gt (contentLengthOf E res) (Finite (of_nat partSize))")
      case True
      from importBlob_large_headers [OF f res True assms] show ?thesis ..
    next
      case False
      from assms have "headers r = headers res" and "\<exists>evs. trace w' = trace w @ ?f # evs"
        unfolding importBlob_single [OF f res False]
        by (auto simp: record_event_def new_Response_initOf split: if_splits)
      then show ?thesis
        by (auto simp: fromUpstream_append fromUpstream_Fetched)
    qed
  qed
qed

lemma pullThroughRegistry_version:
  assumes run: "pullThroughRegistry E req (getObject E req key (routeHeaders d)) populate w = (Inr r, w')"
    and populate: "\<And>w1 r1 w2. populate w1 = (Inr r1, w2) \<Longrightarrow> Q (trace w2) r1"
  shows "hasApiVersion r \<or> Q (trace w') r"
proof -
  obtain x1 w1 where g1: "getObject E req key (routeHeaders d) w = (x1, w1)"
    by (cases "getObject E req key (routeHeaders d) w")
  from getObject_version [OF g1] obtain found1 where
    x1: "x1 = Inr found1" and v1: "\<And>r. found1 = Some r \<Longrightarrow> hasApiVersion r"
    by blast
  show ?thesis
  proof (cases found1)
    case (Some obj)
    with run g1 x1 have "r = obj"
      by (simp add: pullThroughRegistry_def io_bind_def io_return_def split: if_splits)
    with v1 Some show ?thesis by simp
  next
    case None
    obtain y w2 where p: "populate w1 = (y, w2)"
      by (cases "populate w1")
    show ?thesis
    proof (cases "req_method req = ''HEAD''")
      case False
      with run g1 x1 None p have "y = Inr r" and "w' = w2"
        by (simp_all add: pullThroughRegistry_def io_bind_def io_return_def)
      with p populate show ?thesis by simp
    next
      case True
      show ?thesis
      proof (cases y)
        case (Inl e)
        with run g1 x1 None p True show ?thesis
          by (simp add: pullThroughRegistry_def io_bind_def io_return_def)
      next
        case (Inr res)
        show ?thesis
        proof (cases "ok res")
          case False
          with run g1 x1 None p True Inr have "r = res" and "w' = w2"
            by (simp_all add: pullThroughRegistry_def io_bind_def io_return_def)
          with p Inr populate show ?thesis by simp
        next
          case ok: True
          obtain x3 w3 where g3: "getObject E req key (routeHeaders d) w2 = (x3, w3)"
            by (cases "getObject E req key (routeHeaders d) w2")
          from getObject_version [OF g3] obtain found3 where
            x3: "x3 = Inr found3" and v3: "\<And>r. found3 = Some r \<Longrightarrow> hasApiVersion r"
            by blast
          from run g1 x1 None p True Inr ok g3 x3
          have "r = (case found3 of None \<Rightarrow> json E (errorsOf ''BLOB_UNKNOWN'') (statusInit 404)
                     | Some obj \<Rightarrow> obj)"
            by (simp add: pullThroughRegistry_def io_bind_def io_return_def split: option.splits)
          with v3 show ?thesis
            by (cases found3) (simp_all add: hasApiVersion_json)
        qed
      qed
    qed
  qed
qed

lemma blobsRoute_version:
  assumes "blobsRoute E req name reference w = (Inr r, w')"
  shows "hasApiVersion r \<or> fromUpstream (trace w') r \<or> r = new_Response None (statusInit 404)"
proof (cases "parseDigest reference")
  case None
  with assms show ?thesis
    by (auto simp: blobsRoute_def io_return_def hasApiVersion_json)
next
  case (Some d)
  with assms have "pullThroughRegistry E req (getObject E req (name @ ''/blobs/'' @ digest d) (routeHeaders d))
      (importBlob E name d) w = (Inr r, w')"
    by (simp add: blobsRoute_def)
  then show ?thesis
    by (rule pullThroughRegistry_version) (rule importBlob_headers)
qed

lemma manifestsRoute_version:
  assumes "manifestsRoute E req name reference w = (Inr r, w')"
  shows "hasApiVersion r \<or> fromUpstream (trace w') r \<or> r = new_Response None (statusInit 404)"
proof -
  let ?resolve = "case parseTag reference of
                None \<Rightarrow> io_return (parseDigest reference)
              | Some tag \<Rightarrow> if tag = [] then io_return (parseDigest reference)
                            else resolveTagToDigest E name tag"
  obtain x w0 where res: "?resolve w = (x, w0)"
    by (cases "?resolve w")
  show ?thesis
  proof (cases x)
    case (Inl e)
    with assms res show ?thesis
      by (simp add: manifestsRoute_def io_bind_def)
  next
    case (Inr resolved)
    show ?thesis
    proof (cases resolved)
      case None
      with assms res Inr have "r = json E (errorsOf ''MANIFEST_UNKNOWN'') (statusInit 404)"
        by (simp add: manifestsRoute_def io_bind_def io_return_def)
      then show ?thesis
        by (simp add: hasApiVersion_json)
    next
      case (Some d)
      with assms res Inr
      have "pullThroughRegistry E req (getObject E req (name @ ''/manifests/'' @ digest d) (routeHeaders d))
          (importManifest E name d) w0 = (Inr r, w')"
        by (simp add: manifestsRoute_def io_bind_def)
      then show ?thesis
        by (rule pullThroughRegistry_version) (rule importManifest_headers)
    qed
  qed
qed

lemma parseTag_Some: "parseTag reference = Some tag \<Longrightarrow> tag = reference"
  by (simp add: parseTag_def split: if_splits)

lemma import_try_block:
  assumes "pio_catch
             (case parseDigest v of
                None \<Rightarrow> pio_return (Some (json E (errorsOf ''MANIFEST_INVALID'') (statusInit 400)))
              | Some d \<Rightarrow>
                  pio_bind (importAll fuel E name d) (\<lambda>_.
                    pio_bind (pio_lift (storage_put E key (digest d) noOptions))
                      (\<lambda>_. pio_return None)))
             (\<lambda>err. pio_return
                (Some (json E (errorsWithMessage ''INTERNAL_ERROR'' (errorMessage E err)) (statusInit 500))))
             w1 = Some (x, w2)"
  shows "\<exists>returned. x = Inr returned \<and> (\<forall>r. returned = Some r \<longrightarrow> hasApiVersion r)"
proof (cases "parseDigest v")
  case None
  with assms show ?thesis
    by (auto simp: pio_catch_def pio_return_def pio_lift_def io_return_def hasApiVersion_json)
next
  case (Some d)
  show ?thesis
  proof (cases "importAll fuel E name d w1")
    case None
    with assms Some show ?thesis
      by (simp add: pio_catch_def pio_bind_def)
  next
    case run: (Some res)
    obtain y w3 where res: "res = (y, w3)" by (cases res)
    show ?thesis
    proof (cases y)
      case (Inl e)
      with assms Some run res show ?thesis
        by (auto simp: pio_catch_def pio_bind_def pio_return_def pio_lift_def io_return_def
            hasApiVersion_json)
    next
      case (Inr u)
      with assms Some run res show ?thesis
        by (auto simp: pio_catch_def pio_bind_def pio_return_def pio_lift_def io_return_def
            hasApiVersion_json storage_put_def noOptions_def)
    qed
  qed
qed

lemma importRoute_version:
  assumes "importRoute fuel E name reference w = Some (Inr r, w')"
  shows "hasApiVersion r
     \<or> fetch E (trace w) (registryURL E (''https://registry/v2/'' @ name @ ''/manifests/'' @ reference))
           (sentHeaders E Map.empty) = Some r"
proof (cases "case parseTag reference of None \<Rightarrow> None | Some t \<Rightarrow> if t = [] then None else Some t")
  case None
  with assms have "r = json E (errorsOf ''MANIFEST_INVALID'') (statusInit 400)"
    by (simp add: importRoute_def pio_return_def pio_lift_def io_return_def)
  then show ?thesis
    by (simp add: hasApiVersion_json)
next
  case (Some tag)
  then have tag: "tag = reference"
    by (auto dest: parseTag_Some split: option.splits if_splits)
  let ?url = "registryURL E (''https://registry/v2/'' @ name @ ''/manifests/'' @ reference)"
  show ?thesis
  proof (cases "fetch E (trace w) ?url (sentHeaders E Map.empty)")
    case None
    with assms Some tag show ?thesis
      by (simp add: importRoute_def pio_bind_def pio_lift_def fetchFromRegistry_result)
  next
    case res: (Some res)
    show ?thesis
    proof (cases "ok res")
      case False
      with assms Some tag res have "r = res"
        by (simp add: importRoute_def pio_bind_def pio_lift_def pio_return_def io_return_def
            fetchFromRegistry_result)
      with res show ?thesis by simp
    next
      case True
      let ?w1 = "record_event (Fetched ?url (sentHeaders E Map.empty) (Some res)) w"
      let ?block = "pio_catch
             (case parseDigest (case Headers_get (headers res) ''Docker-Content-Digest'' of
                                  None \<Rightarrow> [] | Some v \<Rightarrow> v) of
                None \<Rightarrow> pio_return (Some (json E (errorsOf ''MANIFEST_INVALID'') (statusInit 400)))
              | Some d \<Rightarrow>
                  pio_bind (importAll fuel E name d) (\<lambda>_.
                    pio_bind (pio_lift (storage_put E (name @ ''/tags/'' @ reference) (digest d) noOptions))
                      (\<lambda>_. pio_return None)))
             (\<lambda>err. pio_return
                (Some (json E (errorsWithMessage ''INTERNAL_ERROR'' (errorMessage E err)) (statusInit 500))))"
      have route: "importRoute fuel E name reference w =
          pio_bind ?block (\<lambda>returned. case returned of Some r \<Rightarrow> pio_return r | None \<Rightarrow> pio_return res) ?w1"
        using Some tag res True
        by (simp add: importRoute_def pio_bind_def pio_lift_def fetchFromRegistry_result)
      show ?thesis
      proof (cases "?block ?w1")
        case None
        with assms route show ?thesis
          by (simp add: pio_bind_def)
      next
        case t: (Some out)
        obtain x w2 where out: "out = (x, w2)" by (cases out)
        from import_try_block [OF t [unfolded out]] obtain returned where
          x: "x = Inr returned" and v: "\<And>r. returned = Some r \<Longrightarrow> hasApiVersion r"
          by blast
        from assms route t out x
        have "r = (case returned of Some r \<Rightarrow> r | None \<Rightarrow> res)"
          by (simp add: pio_bind_def pio_return_def pio_lift_def io_return_def split: option.splits)
        with v res show ?thesis
          by (cases returned) simp_all
      qed
    qed
  qed
qed

lemma blobsRoute_bare_run:
  "blobsRoute bareEnv getReq ''alpine'' ''sha256:abc'' emptyWorld =
     (Inr notFound,
      emptyWorld\<lparr>trace := [StorageGet ''alpine/blobs/sha256:abc'',
                             Fetched ''https://registry/v2/alpine/blobs/sha256:abc''
                               (sentHeaders bareEnv Map.empty) (Some notFound)]\<rparr>)"
  by (simp add: blobsRoute_def parseDigest_abc pullThroughRegistry_def getReq_def getObject_def
      io_bind_def io_return_def storage_get_with_def emptyWorld_def record_event_def
      importBlob_def fetchFromRegistry_result bareEnv_def staticEnv_def notFound_def ok_def
      abcDigest_def)

lemma blobsRoute_stored_run:
  "blobsRoute bareEnv getReq ''alpine'' ''sha256:abc'' blobWorld =
     (Inr (objectResponse getReq (selectedObject bareEnv Map.empty blobStored) (routeHeaders abcDigest)),
      blobWorld\<lparr>trace := [StorageGet ''alpine/blobs/sha256:abc'']\<rparr>)"
  by (simp add: blobsRoute_def parseDigest_abc pullThroughRegistry_def getReq_def getObject_result
      io_bind_def io_return_def blobWorld_def emptyWorld_def record_event_def abcDigest_def)

lemma parseTag_bang: "parseTag ''!'' = None"
  by (simp add: parseTag_def tagPattern_def inCls_def wordChars_def)

lemma parseDigest_bang: "parseDigest ''!'' = None"
  by (simp add: parseDigest_def digestPattern_def algorithmPattern_def Plus_def inCls_def
      lowerAlnum_def)

text \<open>
  Claim C6, as stated, fails: the blobs route passes on what the upstream answered. For a
  blob that is not in the store and an upstream that answers 404 without the header, the
  response of the route is that 404, without the header.
\<close>

theorem api_version_missing_counterexample:
  "fst (blobsRoute bareEnv getReq ''alpine'' ''sha256:abc'' emptyWorld) = Inr notFound
   \<and> \<not> hasApiVersion notFound"
  by (simp add: blobsRoute_bare_run hasApiVersion_def notFound_def Headers_get_def)

text \<open>
  Claim C6, amended. Every response that the worker builds with \<open>response\<close>,
  \<open>emptyResponse\<close> or \<open>json\<close> carries \<open>Docker-Distribution-API-Version: registry/2.0\<close>.
  A response of the manifests route or of the blobs route carries it, or has the headers
  of an answer the upstream gave while the request was handled (then it carries the header
  only if the upstream sent it), or is the bodiless 404 that \<open>importManifest\<close> and
  \<open>importBlob\<close> build when the object they stored cannot be read back, about which
  nothing is said. A response of the import route carries it or is the answer of the
  upstream to the request for the manifest by tag.
\<close>

theorem api_version_header:
  "hasApiVersion (response b init) \<and> hasApiVersion (emptyResponse init) \<and> hasApiVersion (json E data init)
   \<and> (blobsRoute E req name reference w = (Inr r, w') \<longrightarrow>
         hasApiVersion r \<or> fromUpstream (trace w') r \<or> r = new_Response None (statusInit 404))
   \<and> (manifestsRoute E req name reference w = (Inr r, w') \<longrightarrow>
         hasApiVersion r \<or> fromUpstream (trace w') r \<or> r = new_Response None (statusInit 404))
   \<and> (importRoute fuel E name reference w = Some (Inr r, w') \<longrightarrow>
         hasApiVersion r
         \<or> fetch E (trace w) (registryURL E (''https://registry/v2/'' @ name @ ''/manifests/'' @ reference))
               (sentHeaders E Map.empty) = Some r)"
proof (intro conjI impI)
  show "hasApiVersion (response b init)"
    by (rule hasApiVersion_response)
  show "hasApiVersion (emptyResponse init)"
    by (rule hasApiVersion_emptyResponse)
  show "hasApiVersion (json E data init)"
    by (rule hasApiVersion_json)
next
  assume "blobsRoute E req name reference w = (Inr r, w')"
  then show "hasApiVersion r \<or> fromUpstream (trace w') r \<or> r = new_Response None (statusInit 404)"
    by (rule blobsRoute_version)
next
  assume "manifestsRoute E req name reference w = (Inr r, w')"
  then show "hasApiVersion r \<or> fromUpstream (trace w') r \<or> r = new_Response None (statusInit 404)"
    by (rule manifestsRoute_version)
next
  assume "importRoute fuel E name reference w = Some (Inr r, w')"
  then show "hasApiVersion r
     \<or> fetch E (trace w) (registryURL E (''https://registry/v2/'' @ name @ ''/manifests/'' @ reference))
           (sentHeaders E Map.empty) = Some r"
    by (rule importRoute_version)
qed

text \<open>
  A blob that is in the store is served with the header; for a blob that is not, the
  answer of the upstream is passed on; a reference that is neither a tag nor a digest
  gets the worker's own error response.
\<close>

theorem api_version_header_witness:
  "blobsRoute bareEnv getReq ''alpine'' ''sha256:abc'' blobWorld =
     (Inr (objectResponse getReq (selectedObject bareEnv Map.empty blobStored) (routeHeaders abcDigest)),
      blobWorld\<lparr>trace := [StorageGet ''alpine/blobs/sha256:abc'']\<rparr>)
   \<and> hasApiVersion (objectResponse getReq (selectedObject bareEnv Map.empty blobStored) (routeHeaders abcDigest))
   \<and> blobsRoute bareEnv getReq ''alpine'' ''sha256:abc'' emptyWorld =
     (Inr notFound,
      emptyWorld\<lparr>trace := [StorageGet ''alpine/blobs/sha256:abc'',
                             Fetched ''https://registry/v2/alpine/blobs/sha256:abc''
                               (sentHeaders bareEnv Map.empty) (Some notFound)]\<rparr>)
   \<and> fromUpstream [StorageGet ''alpine/blobs/sha256:abc'',
                      Fetched ''https://registry/v2/alpine/blobs/sha256:abc''
                        (sentHeaders bareEnv Map.empty) (Some notFound)] notFound
   \<and> manifestsRoute bareEnv getReq ''alpine'' ''!'' emptyWorld =
     (Inr (json bareEnv (errorsOf ''MANIFEST_UNKNOWN'') (statusInit 404)), emptyWorld)
   \<and> importRoute 0 bareEnv ''alpine'' ''!'' emptyWorld =
     Some (Inr (json bareEnv (errorsOf ''MANIFEST_INVALID'') (statusInit 400)), emptyWorld)
   \<and> hasApiVersion (json bareEnv (errorsOf ''MANIFEST_UNKNOWN'') (statusInit 404))
   \<and> hasApiVersion (json bareEnv (errorsOf ''MANIFEST_INVALID'') (statusInit 400))"
proof -
  have 1: "manifestsRoute bareEnv getReq ''alpine'' ''!'' emptyWorld =
     (Inr (json bareEnv (errorsOf ''MANIFEST_UNKNOWN'') (statusInit 404)), emptyWorld)"
    by (simp add: manifestsRoute_def parseTag_bang parseDigest_bang io_bind_def io_return_def)
  have 2: "importRoute 0 bareEnv ''alpine'' ''!'' emptyWorld =
     Some (Inr (json bareEnv (errorsOf ''MANIFEST_INVALID'') (statusInit 400)), emptyWorld)"
    by (simp add: importRoute_def parseTag_bang pio_return_def pio_lift_def io_return_def)
  have 3: "\<not> hasApiVersion notFound"
    by (simp add: hasApiVersion_def notFound_def Headers_get_def)
  have 4: "notFound \<noteq> new_Response None (statusInit 404)"
    by (simp add: notFound_def new_Response_def statusInit_def noInit_def)
  have 5: "hasApiVersion (objectResponse getReq (selectedObject bareEnv Map.empty blobStored) (routeHeaders abcDigest))"
    by (simp add: hasApiVersion_def objectResponse_version routeHeaders_version)
  have 6: "fromUpstream [StorageGet ''alpine/blobs/sha256:abc'',
                      Fetched ''https://registry/v2/alpine/blobs/sha256:abc''
                        (sentHeaders bareEnv Map.empty) (Some notFound)] notFound"
    using api_version_header [where E = bareEnv and req = getReq and name = "''alpine''"
        and reference = "''sha256:abc''" and w = emptyWorld and r = notFound
        and w' = "emptyWorld\<lparr>trace := [StorageGet ''alpine/blobs/sha256:abc'',
                             Fetched ''https://registry/v2/alpine/blobs/sha256:abc''
                               (sentHeaders bareEnv Map.empty) (Some notFound)]\<rparr>"]
      blobsRoute_bare_run 3 4
    by simp
  have 7: "hasApiVersion (json bareEnv (errorsOf ''MANIFEST_UNKNOWN'') (statusInit 404))"
    using api_version_header [where E = bareEnv and data = "errorsOf ''MANIFEST_UNKNOWN''"
        and init = "statusInit 404"]
    by simp
  have 8: "hasApiVersion (json bareEnv (errorsOf ''MANIFEST_INVALID'') (statusInit 400))"
    using api_version_header [where E = bareEnv and data = "errorsOf ''MANIFEST_INVALID''"
        and init = "statusInit 400"]
    by simp
  from blobsRoute_stored_run 5 blobsRoute_bare_run 6 1 2 7 8 show ?thesis
    by (intro conjI)
qed

section \<open>Import of a manifest graph\<close>

lemma forEach_descriptors:
  "pio_forEach (\<lambda>descriptor.
       pio_bind (pio_of (js_prop (Some descriptor) ''digest'')) (\<lambda>dg.
         case parseDigestValue dg of
           None \<Rightarrow> pio_throw (InvalidManifestDigest dg)
         | Some digest' \<Rightarrow> again digest'))
     descriptors w
   = importDescriptors_spec again descriptors w"
  by (induction descriptors arbitrary: w)
    (auto simp: pio_return_def pio_lift_def io_return_def pio_bind_def pio_of_def pio_throw_def
       io_throw_def split: sum.splits option.splits prod.splits)

lemma forEach_layers:
  "pio_forEach (\<lambda>layer.
       pio_bind (pio_of (js_prop (Some layer) ''digest'')) (\<lambda>dg.
         case parseDigestValue dg of
           None \<Rightarrow> pio_throw (invalid dg)
         | Some digest' \<Rightarrow>
             pio_bind (pio_lift (storage_head (name @ ''/blobs/'' @ digest digest')))
               (\<lambda>found.
                 case found of
                   Some obj \<Rightarrow> pio_return ()
                 | None \<Rightarrow>
                     pio_bind (pio_lift (importBlob E name digest')) (\<lambda>_. pio_return ()))))
     layers w
   = Some (importBlobs_spec E name invalid layers w)"
  by (induction layers arbitrary: w)
    (auto simp: pio_return_def pio_lift_def io_return_def pio_bind_def pio_of_def pio_throw_def
       io_throw_def storage_head_def importUnlessPresent_spec_def
       split: sum.splits option.splits prod.splits)

lemma pio_bind_lift:
  "pio_bind (pio_lift m) f w =
     (case m w of (Inl e, w1) \<Rightarrow> Some (Inl e, w1) | (Inr x, w1) \<Rightarrow> f x w1)"
  by (simp add: pio_bind_def pio_lift_def split: prod.splits sum.splits)

lemma pio_bind_of:
  "pio_bind (pio_of r) f w = (case r of Inl e \<Rightarrow> Some (Inl e, w) | Inr x \<Rightarrow> f x w)"
  by (simp add: pio_bind_def pio_of_def split: sum.splits)

lemma pio_throw_apply: "pio_throw e w = Some (Inl e, w)"
  by (simp add: pio_throw_def pio_lift_def io_throw_def)

lemma pio_return_apply: "pio_return x w = Some (Inr x, w)"
  by (simp add: pio_return_def pio_lift_def io_return_def)

lemma head_then:
  "pio_bind (pio_lift (storage_head (name @ ''/blobs/'' @ digest d')))
     (\<lambda>found. pio_bind (case found of Some obj \<Rightarrow> pio_return ()
                  | None \<Rightarrow> pio_bind (pio_lift (importBlob E name d')) (\<lambda>_. pio_return ())) k) w0
   = (case importUnlessPresent_spec E name d' w0 of
        (Inl e, w') \<Rightarrow> Some (Inl e, w') | (Inr u, w') \<Rightarrow> k u w')"
proof (cases "objects w0 (name @ ''/blobs/'' @ digest d')")
  case None
  obtain y w' where b: "importBlob E name d' (record_event (StorageHead (name @ ''/blobs/'' @ digest d')) w0)
      = (y, w')"
    by (cases "importBlob E name d' (record_event (StorageHead (name @ ''/blobs/'' @ digest d')) w0)")
  show ?thesis
    using None b
    by (cases y)
      (simp_all add: pio_bind_def pio_lift_def pio_return_def io_return_def storage_head_def
        importUnlessPresent_spec_def)
next
  case (Some st)
  then show ?thesis
    by (simp add: pio_bind_def pio_lift_def pio_return_def io_return_def storage_head_def
        importUnlessPresent_spec_def)
qed

lemma index_body:
  "pio_bind (pio_of (js_prop (Some manifest) ''manifests'')) (\<lambda>manifests.
     pio_bind (pio_of (js_iterate manifests)) (\<lambda>descriptors. F descriptors)) w1
   = (case descriptorsOf manifest ''manifests'' of
        Inl e \<Rightarrow> Some (Inl e, w1)
      | Inr descriptors \<Rightarrow> F descriptors w1)"
  by (cases "js_prop (Some manifest) ''manifests''")
    (simp_all add: pio_bind_of descriptorsOf_def split: sum.splits)

lemma config_body:
  "pio_bind (pio_of (js_prop (Some manifest) ''config'')) (\<lambda>config.
     pio_bind (pio_of (js_prop config ''digest'')) (\<lambda>dg.
       case parseDigestValue dg of
         None \<Rightarrow> pio_throw (InvalidConfigDigest dg)
       | Some digest' \<Rightarrow>
           pio_bind (pio_lift (storage_head (name @ ''/blobs/'' @ digest digest'))) (\<lambda>found.
             pio_bind (case found of Some obj \<Rightarrow> pio_return ()
                       | None \<Rightarrow> pio_bind (pio_lift (importBlob E name digest')) (\<lambda>_. pio_return ()))
               K))) w1
   = (case js_prop (Some manifest) ''config'' of
        Inl e \<Rightarrow> Some (Inl e, w1)
      | Inr None \<Rightarrow> Some (Inl TypeError, w1)
      | Inr (Some config) \<Rightarrow>
          (case importBlobs_spec E name InvalidConfigDigest [config] w1 of
             (Inl e, w2) \<Rightarrow> Some (Inl e, w2)
           | (Inr u, w2) \<Rightarrow> K u w2))"
proof (cases "js_prop (Some manifest) ''config''")
  case (Inl e)
  then show ?thesis by (simp add: pio_bind_of)
next
  case (Inr config)
  show ?thesis
  proof (cases config)
    case None
    with Inr show ?thesis by (simp add: pio_bind_of)
  next
    case (Some c)
    show ?thesis
    proof (cases "js_prop (Some c) ''digest''")
      case (Inl e)
      with Inr Some show ?thesis by (simp add: pio_bind_of)
    next
      case dg: (Inr dg)
      show ?thesis
      proof (cases "parseDigestValue dg")
        case None
        with Inr Some dg show ?thesis by (simp add: pio_bind_of pio_throw_apply)
      next
        case d': (Some d')
        obtain y w' where u: "importUnlessPresent_spec E name d' w1 = (y, w')"
          by (cases "importUnlessPresent_spec E name d' w1")
        show ?thesis
          using Inr Some dg d' u
          by (cases y) (simp_all add: pio_bind_of head_then [unfolded append.simps])
      qed
    qed
  qed
qed

lemma importAll_unfold:
  assumes m: "importManifest E name d w = (Inr res, w1)" and ok: "ok res"
    and j: "response_json E res = Inr manifest"
  shows "importAll (Suc fuel) E name d w =
     (case mediaKindOf manifest of
        NoMediaType e \<Rightarrow> Some (Inl e, w1)
      | OtherType \<Rightarrow> Some (Inl (UnknownContent manifest), w1)
      | IndexType \<Rightarrow>
          (case descriptorsOf manifest ''manifests'' of
             Inl e \<Rightarrow> Some (Inl e, w1)
           | Inr descriptors \<Rightarrow> importDescriptors_spec (importAll fuel E name) descriptors w1)
      | ImageType \<Rightarrow>
          (case js_prop (Some manifest) ''config'' of
             Inl e \<Rightarrow> Some (Inl e, w1)
           | Inr None \<Rightarrow> Some (Inl TypeError, w1)
           | Inr (Some config) \<Rightarrow>
               (case importBlobs_spec E name InvalidConfigDigest [config] w1 of
                  (Inl e, w2) \<Rightarrow> Some (Inl e, w2)
                | (Inr u, w2) \<Rightarrow>
                    (case descriptorsOf manifest ''layers'' of
                       Inl e \<Rightarrow> Some (Inl e, w2)
                     | Inr layers \<Rightarrow> Some (importBlobs_spec E name InvalidLayerDigest layers w2)))))"
proof (cases "js_prop (Some manifest) ''mediaType''")
  case (Inl e)
  with m ok j show ?thesis
    by (simp add: pio_bind_lift pio_bind_of mediaKindOf_def)
next
  case (Inr t)
  show ?thesis
  proof (cases "js_falsy t")
    case True
    with m ok j Inr show ?thesis
      by (simp add: pio_bind_lift pio_bind_of mediaKindOf_def pio_throw_apply)
  next
    case False
    consider (index) "t = Some (JStr ''application/vnd.docker.distribution.manifest.list.v2+json'')
          \<or> t = Some (JStr ''application/vnd.oci.image.index.v1+json'')"
      | (image) "t = Some (JStr ''application/vnd.docker.distribution.manifest.v2+json'')
          \<or> t = Some (JStr ''application/vnd.oci.image.manifest.v1+json'')"
      | (other) "t \<noteq> Some (JStr ''application/vnd.docker.distribution.manifest.list.v2+json'')"
          "t \<noteq> Some (JStr ''application/vnd.oci.image.index.v1+json'')"
          "t \<noteq> Some (JStr ''application/vnd.docker.distribution.manifest.v2+json'')"
          "t \<noteq> Some (JStr ''application/vnd.oci.image.manifest.v1+json'')"
      by blast
    then show ?thesis
    proof cases
      case index
      then have k: "mediaKindOf manifest = IndexType"
        using Inr False by (auto simp: mediaKindOf_def)
      from index m ok j Inr False show ?thesis
        unfolding k
        by (auto simp: pio_bind_lift pio_bind_of [of "Inr x" for x] index_body forEach_descriptors
            cong: sum.case_cong)
    next
      case image
      then have k: "mediaKindOf manifest = ImageType"
        using Inr False by (auto simp: mediaKindOf_def)
      have layers: "pio_bind (pio_of (js_prop (Some manifest) ''layers'')) (\<lambda>layers.
           pio_bind (pio_of (js_iterate layers)) (\<lambda>layerList. F layerList)) w2
         = (case descriptorsOf manifest ''layers'' of Inl e \<Rightarrow> Some (Inl e, w2)
            | Inr layerList \<Rightarrow> F layerList w2)" for F w2
        by (cases "js_prop (Some manifest) ''layers''")
          (simp_all add: pio_bind_of descriptorsOf_def split: sum.splits)
      from image m ok j Inr False show ?thesis
        unfolding k
        by (auto simp: pio_bind_lift pio_bind_of [of "Inr x" for x]
            config_body [unfolded append.simps] layers forEach_layers [unfolded append.simps]
            cong: sum.case_cong option.case_cong prod.case_cong)
    next
      case other
      then have k: "mediaKindOf manifest = OtherType"
        using Inr False by (simp add: mediaKindOf_def)
      from other m ok j Inr False show ?thesis
        unfolding k
        by (simp add: pio_bind_lift pio_bind_of pio_throw_apply)
    qed
  qed
qed

lemma importAll_refines:
  "importAll (Suc fuel) E name d w = importAll_spec (importAll fuel E name) E name d w"
proof -
  obtain x w1 where m: "importManifest E name d w = (x, w1)"
    by (cases "importManifest E name d w")
  show ?thesis
  proof (cases x)
    case (Inl e)
    with m show ?thesis
      by (simp add: importAll_spec_def pio_bind_lift)
  next
    case (Inr res)
    show ?thesis
    proof (cases "ok res")
      case False
      with m Inr show ?thesis
        by (simp add: importAll_spec_def pio_bind_lift pio_throw_apply)
    next
      case True
      show ?thesis
      proof (cases "response_json E res")
        case (Inl e)
        with m Inr True show ?thesis
          by (simp add: importAll_spec_def pio_bind_lift pio_bind_of)
      next
        case manifest: (Inr manifest)
        show ?thesis
          unfolding importAll_unfold [OF m [unfolded Inr] True manifest]
          using m Inr True manifest by (simp add: importAll_spec_def)
      qed
    qed
  qed
qed

lemma importAll_unrecognised:
  assumes "importManifest E name d w = (Inr res, w1)" and "ok res"
    and "response_json E res = Inr manifest"
    and "js_prop (Some manifest) ''mediaType'' \<notin>
           {Inr (Some (JStr ''application/vnd.docker.distribution.manifest.list.v2+json'')),
            Inr (Some (JStr ''application/vnd.oci.image.index.v1+json'')),
            Inr (Some (JStr ''application/vnd.docker.distribution.manifest.v2+json'')),
            Inr (Some (JStr ''application/vnd.oci.image.manifest.v1+json''))}"
  shows "\<exists>e. importAll (Suc fuel) E name d w = Some (Inl e, w1)"
proof -
  have "mediaKindOf manifest \<noteq> IndexType" "mediaKindOf manifest \<noteq> ImageType"
    using assms(4) by (auto simp: mediaKindOf_def split: sum.splits if_splits)
  then show ?thesis
    unfolding importAll_unfold [OF assms(1,2,3)]
    by (cases "mediaKindOf manifest") simp_all
qed

lemma importBlobs_all_present:
  assumes "list_all (\<lambda>descriptor. descriptorDigest descriptor \<noteq> None
              \<and> objects w (blobKeyOf name descriptor) \<noteq> None) descriptors"
  shows "importBlobs_spec E name invalid descriptors w =
     (Inr (), w\<lparr>trace := trace w @ map (\<lambda>descriptor. StorageHead (blobKeyOf name descriptor)) descriptors\<rparr>)"
  using assms
proof (induction descriptors arbitrary: w)
  case Nil
  show ?case by simp
next
  case (Cons descriptor rest)
  from Cons.prems obtain b where b: "descriptorDigest descriptor = Some b"
    and present: "objects w (name @ ''/blobs/'' @ digest b) \<noteq> None"
    by (auto simp: blobKeyOf_def)
  let ?w' = "record_event (StorageHead (name @ ''/blobs/'' @ digest b)) w"
  have step: "importUnlessPresent_spec E name b w = (Inr (), ?w')"
    using present by (simp add: importUnlessPresent_spec_def)
  have "list_all (\<lambda>descriptor. descriptorDigest descriptor \<noteq> None
              \<and> objects ?w' (blobKeyOf name descriptor) \<noteq> None) rest"
    using Cons.prems by (simp add: record_event_def)
  from Cons.IH [OF this] b step show ?case
    by (auto simp: descriptorDigest_def blobKeyOf_def record_event_def split: sum.splits)
qed

lemma parseDigest_bcd:
  "parseDigest ''sha256:b'' = Some \<lparr>algorithm = ''sha256'', hash = ''b'', digest = ''sha256:b''\<rparr>"
  "parseDigest ''sha256:c'' = Some \<lparr>algorithm = ''sha256'', hash = ''c'', digest = ''sha256:c''\<rparr>"
  "parseDigest ''sha256:d'' = Some \<lparr>algorithm = ''sha256'', hash = ''d'', digest = ''sha256:d''\<rparr>"
  by (simp_all add: parseDigest_def digestPattern_def algorithmPattern_def Plus_def inCls_def
      lowerAlnum_def separators_def hashChars_def colon_def)

lemma repoEnv_fields:
  "fetch repoEnv tr url hs =
     (if url = ''https://registry/v2/r/manifests/sha256:a'' then Some (bodyResponse ''index'')
      else if url = ''https://registry/v2/r/manifests/sha256:b'' then Some (bodyResponse ''image'')
      else if url = ''https://registry/v2/r/blobs/sha256:d'' then Some (bodyResponse ''layer'')
      else Some notFound)"
  "registryURL repoEnv url = url"
  "JSON_parse repoEnv v = (if v = ''index'' then Some indexManifest
                          else if v = ''image'' then Some imageManifest else None)"
  "r2_checksum repoEnv h v = True"
  "r2_etag repoEnv v = ''etag''"
  "Number repoEnv v = NaN"
  by (simp_all add: repoEnv_def staticEnv_def)

lemma repo_importManifest:
  assumes "fetch repoEnv (trace w) (''https://registry/v2/r/manifests/'' @ digest d) (sentHeaders repoEnv Map.empty)
             = Some (bodyResponse b)"
  shows "importManifest repoEnv ''r'' d w =
     (Inr (bodyResponse b),
      w\<lparr>objects := (objects w)(''r/manifests/'' @ digest d \<mapsto>
              \<lparr>content = b, metadata = \<lparr>contentType = None, contentEncoding = None\<rparr>, etag = ''etag''\<rparr>),
         trace := trace w @ [Fetched (''https://registry/v2/r/manifests/'' @ digest d)
                               (sentHeaders repoEnv Map.empty) (Some (bodyResponse b)),
                             StoragePut (''r/manifests/'' @ digest d) True,
                             StorageGet (''r/manifests/'' @ digest d)]\<rparr>)"
  using assms
  by (simp add: importManifest_def io_bind_def io_return_def fetchFromRegistry_result
      repoEnv_fields(2-) bodyResponse_def ok_def storage_put_def storage_get_def putOptions_def
      Headers_get_def record_event_def bodyObject_def new_Response_def initOf_def)

lemma repo_index:
  "importManifest repoEnv ''r'' aDigest w =
     (Inr (bodyResponse ''index''),
      w\<lparr>objects := (objects w)(''r/manifests/sha256:a'' \<mapsto>
              \<lparr>content = ''index'', metadata = \<lparr>contentType = None, contentEncoding = None\<rparr>,
               etag = ''etag''\<rparr>),
         trace := trace w @ [Fetched ''https://registry/v2/r/manifests/sha256:a''
                               (sentHeaders repoEnv Map.empty) (Some (bodyResponse ''index'')),
                             StoragePut ''r/manifests/sha256:a'' True,
                             StorageGet ''r/manifests/sha256:a'']\<rparr>)"
  using repo_importManifest [of w aDigest "''index''"]
  by (simp add: repoEnv_fields(1) aDigest_def)

lemma repo_image:
  "importManifest repoEnv ''r'' \<lparr>algorithm = ''sha256'', hash = ''b'', digest = ''sha256:b''\<rparr> w =
     (Inr (bodyResponse ''image''),
      w\<lparr>objects := (objects w)(''r/manifests/sha256:b'' \<mapsto>
              \<lparr>content = ''image'', metadata = \<lparr>contentType = None, contentEncoding = None\<rparr>,
               etag = ''etag''\<rparr>),
         trace := trace w @ [Fetched ''https://registry/v2/r/manifests/sha256:b''
                               (sentHeaders repoEnv Map.empty) (Some (bodyResponse ''image'')),
                             StoragePut ''r/manifests/sha256:b'' True,
                             StorageGet ''r/manifests/sha256:b'']\<rparr>)"
  using repo_importManifest [of w "\<lparr>algorithm = ''sha256'', hash = ''b'', digest = ''sha256:b''\<rparr>" "''image''"]
  by (simp add: repoEnv_fields(1))

lemma repo_layer:
  "importBlob repoEnv ''r'' \<lparr>algorithm = ''sha256'', hash = ''d'', digest = ''sha256:d''\<rparr> w =
     (Inr (bodyResponse ''layer''),
      w\<lparr>objects := (objects w)(''r/blobs/sha256:d'' \<mapsto>
              \<lparr>content = ''layer'', metadata = \<lparr>contentType = None, contentEncoding = None\<rparr>,
               etag = ''etag''\<rparr>),
         trace := trace w @ [Fetched ''https://registry/v2/r/blobs/sha256:d''
                               (sentHeaders repoEnv Map.empty) (Some (bodyResponse ''layer'')),
                             StoragePut ''r/blobs/sha256:d'' True,
                             StorageGet ''r/blobs/sha256:d'']\<rparr>)"
proof -
  let ?d = "\<lparr>algorithm = ''sha256'', hash = ''d'', digest = ''sha256:d''\<rparr>"
  have f: "fetchFromRegistry repoEnv (''https://registry/v2/'' @ ''r'' @ ''/blobs/'' @ digest ?d) Map.empty w
      = (Inr (bodyResponse ''layer''),
         record_event (Fetched ''https://registry/v2/r/blobs/sha256:d'' (sentHeaders repoEnv Map.empty)
                         (Some (bodyResponse ''layer''))) w)"
    by (simp add: fetchFromRegistry_result repoEnv_fields)
  have r: "ok (bodyResponse ''layer'')" "body (bodyResponse ''layer'') = Some ''layer''"
    by (simp_all add: ok_def bodyResponse_def)
  have s: "\<not> js_gt (contentLengthOf repoEnv (bodyResponse ''layer'')) (Finite (of_nat partSize))"
    by (simp add: contentLengthOf_def bodyResponse_def Headers_get_def partSize_def)
  show ?thesis
    unfolding importBlob_single [OF f r s]
    by (simp add: repoEnv_fields record_event_def putOptions_def bodyResponse_def Headers_get_def
        new_Response_def initOf_def)
qed

lemma repo_run:
  "map_option (\<lambda>(x, w'). (x, trace w')) (importAll 2 repoEnv ''r'' aDigest configWorld) =
     Some (Inr (),
       [Fetched ''https://registry/v2/r/manifests/sha256:a'' (sentHeaders repoEnv Map.empty)
          (Some (bodyResponse ''index'')),
        StoragePut ''r/manifests/sha256:a'' True, StorageGet ''r/manifests/sha256:a'',
        Fetched ''https://registry/v2/r/manifests/sha256:b'' (sentHeaders repoEnv Map.empty)
          (Some (bodyResponse ''image'')),
        StoragePut ''r/manifests/sha256:b'' True, StorageGet ''r/manifests/sha256:b'',
        StorageHead ''r/blobs/sha256:c'',
        StorageHead ''r/blobs/sha256:d'',
        Fetched ''https://registry/v2/r/blobs/sha256:d'' (sentHeaders repoEnv Map.empty)
          (Some (bodyResponse ''layer'')),
        StoragePut ''r/blobs/sha256:d'' True, StorageGet ''r/blobs/sha256:d''])"
proof -
  have ok: "ok (bodyResponse b)" for b
    by (simp add: ok_def bodyResponse_def)
  have js: "response_json repoEnv (bodyResponse ''index'') = Inr indexManifest"
    "response_json repoEnv (bodyResponse ''image'') = Inr imageManifest"
    by (simp_all add: response_json_def bodyResponse_def repoEnv_fields)
  have kinds: "mediaKindOf indexManifest = IndexType" "mediaKindOf imageManifest = ImageType"
    by (simp_all add: mediaKindOf_def indexManifest_def imageManifest_def)
  have ds: "descriptorsOf indexManifest ''manifests'' = Inr [JObj [(''digest'', JStr ''sha256:b'')]]"
    "descriptorsOf imageManifest ''layers'' = Inr [JObj [(''digest'', JStr ''sha256:d'')]]"
    "js_prop (Some imageManifest) ''config'' = Inr (Some (JObj [(''digest'', JStr ''sha256:c'')]))"
    by (simp_all add: descriptorsOf_def indexManifest_def imageManifest_def)
  have two: "(2::nat) = Suc (Suc 0)"
    by simp
  show ?thesis
    unfolding two importAll_refines
    by (simp add: importAll_spec_def repo_index repo_image repo_layer ok js kinds ds parseDigest_bcd
        importUnlessPresent_spec_def record_event_def configWorld_def emptyWorld_def)
qed

lemma plain_index:
  "importManifest plainEnv ''r'' aDigest emptyWorld =
     (Inr (bodyResponse ''index''),
      emptyWorld\<lparr>objects := [''r/manifests/sha256:a'' \<mapsto>
              \<lparr>content = ''index'', metadata = \<lparr>contentType = None, contentEncoding = None\<rparr>,
               etag = ''etag''\<rparr>],
         trace := [Fetched ''https://registry/v2/r/manifests/sha256:a''
                     (sentHeaders plainEnv Map.empty) (Some (bodyResponse ''index'')),
                   StoragePut ''r/manifests/sha256:a'' True,
                   StorageGet ''r/manifests/sha256:a'']\<rparr>)"
  by (simp add: importManifest_def io_bind_def io_return_def fetchFromRegistry_result
      plainEnv_def repoEnv_def staticEnv_def sentHeaders_def aDigest_def emptyWorld_def
      bodyResponse_def ok_def storage_put_def storage_get_def putOptions_def
      Headers_get_def record_event_def bodyObject_def new_Response_def initOf_def)

text \<open>
  Claim C4. \<open>importAll\<close> fetches and stores the manifest and then does what its
  \<open>mediaType\<close> says: \<open>importAll\<close> with fuel for one more level is
  \<open>importAll_spec\<close>, in which the recursive calls have the remaining fuel. There, after
  \<open>importManifest\<close>, an index or manifest list has each listed descriptor imported in
  order and fails at the first invalid digest; an image manifest has the blob of its
  config and then of each layer imported unless an object exists under the key of the
  blob; a manifest with no \<open>mediaType\<close> or with another one fails.
  In particular: when the \<open>mediaType\<close> of the stored manifest is none of the four
  recognised strings, \<open>importAll\<close> returns an error and does nothing after
  \<open>importManifest\<close>; and when every descriptor of a list names a valid digest whose blob
  key holds an object, importing the blobs only checks that each exists, in order, and
  fetches and writes nothing.
\<close>

theorem importAll_dispatch:
  "importAll (Suc fuel) E name d w = importAll_spec (importAll fuel E name) E name d w
   \<and> (importManifest E name d w = (Inr res, w1) \<and> ok res \<and> response_json E res = Inr manifest
        \<and> js_prop (Some manifest) ''mediaType'' \<notin>
             {Inr (Some (JStr ''application/vnd.docker.distribution.manifest.list.v2+json'')),
              Inr (Some (JStr ''application/vnd.oci.image.index.v1+json'')),
              Inr (Some (JStr ''application/vnd.docker.distribution.manifest.v2+json'')),
              Inr (Some (JStr ''application/vnd.oci.image.manifest.v1+json''))}
      \<longrightarrow> (\<exists>e. importAll (Suc fuel) E name d w = Some (Inl e, w1)))
   \<and> (list_all (\<lambda>descriptor. descriptorDigest descriptor \<noteq> None
                     \<and> objects w0 (blobKeyOf name descriptor) \<noteq> None) descriptors
      \<longrightarrow> importBlobs_spec E name invalid descriptors w0 =
            (Inr (), w0\<lparr>trace := trace w0
                       @ map (\<lambda>descriptor. StorageHead (blobKeyOf name descriptor)) descriptors\<rparr>))"
proof (intro conjI impI)
  show "importAll (Suc fuel) E name d w = importAll_spec (importAll fuel E name) E name d w"
    by (rule importAll_refines)
next
  assume "importManifest E name d w = (Inr res, w1) \<and> ok res \<and> response_json E res = Inr manifest
        \<and> js_prop (Some manifest) ''mediaType'' \<notin>
             {Inr (Some (JStr ''application/vnd.docker.distribution.manifest.list.v2+json'')),
              Inr (Some (JStr ''application/vnd.oci.image.index.v1+json'')),
              Inr (Some (JStr ''application/vnd.docker.distribution.manifest.v2+json'')),
              Inr (Some (JStr ''application/vnd.oci.image.manifest.v1+json''))}"
  then show "\<exists>e. importAll (Suc fuel) E name d w = Some (Inl e, w1)"
    using importAll_unrecognised [of E name d w res w1 manifest fuel] by blast
next
  assume "list_all (\<lambda>descriptor. descriptorDigest descriptor \<noteq> None
                     \<and> objects w0 (blobKeyOf name descriptor) \<noteq> None) descriptors"
  then show "importBlobs_spec E name invalid descriptors w0 =
            (Inr (), w0\<lparr>trace := trace w0
                       @ map (\<lambda>descriptor. StorageHead (blobKeyOf name descriptor)) descriptors\<rparr>)"
    by (rule importBlobs_all_present)
qed

text \<open>
  The index \<open>sha256:a\<close> is imported with fuel for two levels: both manifests are fetched
  and stored, the config blob, which the bucket holds, is only checked, and the layer is
  fetched and stored. With manifests of type \<open>text/plain\<close> the import stops with an
  error after the manifest is stored.
\<close>

theorem importAll_dispatch_witness:
  "map_option (\<lambda>(x, w'). (x, trace w'))
       (importAll_spec (importAll 1 repoEnv ''r'') repoEnv ''r'' aDigest configWorld) =
     Some (Inr (),
       [Fetched ''https://registry/v2/r/manifests/sha256:a'' (sentHeaders repoEnv Map.empty)
          (Some (bodyResponse ''index'')),
        StoragePut ''r/manifests/sha256:a'' True, StorageGet ''r/manifests/sha256:a'',
        Fetched ''https://registry/v2/r/manifests/sha256:b'' (sentHeaders repoEnv Map.empty)
          (Some (bodyResponse ''image'')),
        StoragePut ''r/manifests/sha256:b'' True, StorageGet ''r/manifests/sha256:b'',
        StorageHead ''r/blobs/sha256:c'',
        StorageHead ''r/blobs/sha256:d'',
        Fetched ''https://registry/v2/r/blobs/sha256:d'' (sentHeaders repoEnv Map.empty)
          (Some (bodyResponse ''layer'')),
        StoragePut ''r/blobs/sha256:d'' True, StorageGet ''r/blobs/sha256:d''])
   \<and> ok (bodyResponse ''index'')
   \<and> response_json plainEnv (bodyResponse ''index'') = Inr (JObj [(''mediaType'', JStr ''text/plain'')])
   \<and> js_prop (Some (JObj [(''mediaType'', JStr ''text/plain'')])) ''mediaType'' = Inr (Some (JStr ''text/plain''))
   \<and> (\<exists>e. importAll 1 plainEnv ''r'' aDigest emptyWorld =
          Some (Inl e,
            emptyWorld\<lparr>objects := [''r/manifests/sha256:a'' \<mapsto>
                \<lparr>content = ''index'', metadata = \<lparr>contentType = None, contentEncoding = None\<rparr>,
                 etag = ''etag''\<rparr>],
              trace := [Fetched ''https://registry/v2/r/manifests/sha256:a''
                          (sentHeaders plainEnv Map.empty) (Some (bodyResponse ''index'')),
                        StoragePut ''r/manifests/sha256:a'' True,
                        StorageGet ''r/manifests/sha256:a'']\<rparr>))
   \<and> importBlobs_spec repoEnv ''r'' InvalidLayerDigest [JObj [(''digest'', JStr ''sha256:c'')]] configWorld =
       (Inr (), configWorld\<lparr>trace := [StorageHead ''r/blobs/sha256:c'']\<rparr>)"
proof -
  have two: "(2::nat) = Suc 1" and one: "(1::nat) = Suc 0"
    by simp_all
  have 1: "map_option (\<lambda>(x, w'). (x, trace w'))
       (importAll_spec (importAll 1 repoEnv ''r'') repoEnv ''r'' aDigest configWorld) =
     Some (Inr (),
       [Fetched ''https://registry/v2/r/manifests/sha256:a'' (sentHeaders repoEnv Map.empty)
          (Some (bodyResponse ''index'')),
        StoragePut ''r/manifests/sha256:a'' True, StorageGet ''r/manifests/sha256:a'',
        Fetched ''https://registry/v2/r/manifests/sha256:b'' (sentHeaders repoEnv Map.empty)
          (Some (bodyResponse ''image'')),
        StoragePut ''r/manifests/sha256:b'' True, StorageGet ''r/manifests/sha256:b'',
        StorageHead ''r/blobs/sha256:c'',
        StorageHead ''r/blobs/sha256:d'',
        Fetched ''https://registry/v2/r/blobs/sha256:d'' (sentHeaders repoEnv Map.empty)
          (Some (bodyResponse ''layer'')),
        StoragePut ''r/blobs/sha256:d'' True, StorageGet ''r/blobs/sha256:d''])"
    using repo_run
    unfolding two importAll_dispatch [where fuel = 1 and E = repoEnv, THEN conjunct1] .
  have 2: "ok (bodyResponse ''index'')"
    by (simp add: ok_def bodyResponse_def)
  have 3: "response_json plainEnv (bodyResponse ''index'') = Inr (JObj [(''mediaType'', JStr ''text/plain'')])"
    by (simp add: response_json_def bodyResponse_def plainEnv_def)
  have 4: "js_prop (Some (JObj [(''mediaType'', JStr ''text/plain'')])) ''mediaType'' = Inr (Some (JStr ''text/plain''))"
    by simp
  have 5: "js_prop (Some (JObj [(''mediaType'', JStr ''text/plain'')])) ''mediaType'' \<notin>
             {Inr (Some (JStr ''application/vnd.docker.distribution.manifest.list.v2+json'')),
              Inr (Some (JStr ''application/vnd.oci.image.index.v1+json'')),
              Inr (Some (JStr ''application/vnd.docker.distribution.manifest.v2+json'')),
              Inr (Some (JStr ''application/vnd.oci.image.manifest.v1+json''))}"
    by simp
  have 6: "\<exists>e. importAll 1 plainEnv ''r'' aDigest emptyWorld =
          Some (Inl e,
            emptyWorld\<lparr>objects := [''r/manifests/sha256:a'' \<mapsto>
                \<lparr>content = ''index'', metadata = \<lparr>contentType = None, contentEncoding = None\<rparr>,
                 etag = ''etag''\<rparr>],
              trace := [Fetched ''https://registry/v2/r/manifests/sha256:a''
                          (sentHeaders plainEnv Map.empty) (Some (bodyResponse ''index'')),
                        StoragePut ''r/manifests/sha256:a'' True,
                        StorageGet ''r/manifests/sha256:a'']\<rparr>)"
    unfolding one
    using importAll_dispatch [where fuel = 0 and E = plainEnv and name = "''r''" and d = aDigest
        and w = emptyWorld and res = "bodyResponse ''index''"
        and manifest = "JObj [(''mediaType'', JStr ''text/plain'')]", THEN conjunct2, THEN conjunct1]
      plain_index 2 3 5
    by blast
  have 7: "list_all (\<lambda>descriptor. descriptorDigest descriptor \<noteq> None
                     \<and> objects configWorld (blobKeyOf ''r'' descriptor) \<noteq> None)
             [JObj [(''digest'', JStr ''sha256:c'')]]"
    by (simp add: descriptorDigest_def blobKeyOf_def parseDigest_bcd configWorld_def)
  have 8: "importBlobs_spec repoEnv ''r'' InvalidLayerDigest [JObj [(''digest'', JStr ''sha256:c'')]] configWorld =
       (Inr (), configWorld\<lparr>trace := [StorageHead ''r/blobs/sha256:c'']\<rparr>)"
    using importAll_dispatch [where name = "''r''" and w0 = configWorld and E = repoEnv
        and invalid = InvalidLayerDigest
        and descriptors = "[JObj [(''digest'', JStr ''sha256:c'')]]", THEN conjunct2, THEN conjunct2] 7
    by (simp add: descriptorDigest_def blobKeyOf_def parseDigest_bcd configWorld_def emptyWorld_def)
  from 1 2 3 4 6 8 show ?thesis
    by (intro conjI)
qed

end
